theory Spec2Isabelle
  imports Complex_Main "HOL-Library.Word"
begin

section \<open>JavaScript strings and values\<close>

text \<open>
  A JavaScript string is the list of its UTF-16 code units, each a word of 16 bits;
  \<open>lit\<close> gives the code units of a text of the source that is written in ASCII.
  \<open>trim\<close> removes the white space and line terminators of ECMAScript from both ends.
  \<open>toLowerCase\<close> and \<open>toUpperCase\<close> follow the case mappings of Unicode, which are not
  written out here: they are functions of the environment (see \<open>env\<close> below), and a
  theorem that needs something of them says so.
\<close>

type_synonym codeUnit = "16 word"

type_synonym jsString = "codeUnit list"

definition lit :: "string \<Rightarrow> jsString" where
  "lit s = map of_char s"

definition isWhiteSpace :: "codeUnit \<Rightarrow> bool" where
  "isWhiteSpace n =
     ((9 \<le> n \<and> n \<le> 13) \<or> n = 32 \<or> n = 160 \<or> n = 5760 \<or> (8192 \<le> n \<and> n \<le> 8202)
      \<or> n = 8232 \<or> n = 8233 \<or> n = 8239 \<or> n = 8287 \<or> n = 12288 \<or> n = 65279)"

definition trim :: "jsString \<Rightarrow> jsString" where
  "trim s = rev (dropWhile isWhiteSpace (rev (dropWhile isWhiteSpace s)))"

definition isAsciiLetter :: "codeUnit \<Rightarrow> bool" where
  "isAsciiLetter n = ((65 \<le> n \<and> n \<le> 90) \<or> (97 \<le> n \<and> n \<le> 122))"

definition isDigit :: "codeUnit \<Rightarrow> bool" where
  "isDigit n = (48 \<le> n \<and> n \<le> 57)"

definition isHexDigit :: "codeUnit \<Rightarrow> bool" where
  "isHexDigit n = ((48 \<le> n \<and> n \<le> 57) \<or> (65 \<le> n \<and> n \<le> 70) \<or> (97 \<le> n \<and> n \<le> 102))"

text \<open>
  A value of a JSON request body or of a provider's error body, as far as the handlers
  look at it: \<open>JObject\<close> stands for any object or array.  \<open>truthy\<close> is the coercion
  \<open>!!v\<close>.
\<close>

datatype jsValue = JUndefined | JNull | JBool bool | JNumber rat | JString jsString | JObject

fun truthy :: "jsValue \<Rightarrow> bool" where
  "truthy JUndefined = False"
| "truthy JNull = False"
| "truthy (JBool b) = b"
| "truthy (JNumber n) = (n \<noteq> 0)"
| "truthy (JString s) = (s \<noteq> [])"
| "truthy JObject = True"

text \<open>An optional string field is falsy when it is absent or empty.\<close>

fun truthyStr :: "jsString option \<Rightarrow> bool" where
  "truthyStr None = False"
| "truthyStr (Some s) = (s \<noteq> [])"

section \<open>Errors and responses\<close>

text \<open>
  What a \<open>throw\<close> carries.  \<open>AxiosError status cod message\<close> is a failed HTTP call with
  \<open>err.response.status\<close>, \<open>err.response.data.cod\<close> and \<open>err.response.data.message\<close>
  (all undefined when there was no response); \<open>Error m\<close> is \<open>new Error(m)\<close>;
  \<open>BSONError\<close> is what \<open>new Types.ObjectId(s)\<close> throws on a string that is no object id;
  \<open>ValidationError\<close> and \<open>DuplicateKey\<close> are what \<open>doc.save()\<close> rejects with.  The
  message of an \<open>Error\<close> and the \<open>message\<close> of a response are texts of the source and
  are kept as they are written there.
\<close>

datatype error =
    AxiosError "nat option" jsValue jsValue
  | Error string
  | BSONError
  | ValidationError
  | DuplicateKey

text \<open>The JSON bodies the handlers send.\<close>

datatype body =
    Message string
  | CityJson jsString jsString "jsString option" bool
  | LoginJson jsString jsString jsString jsString
  | InsightJson jsString bool
  | NoBody

datatype response = Response nat body

fun status :: "response \<Rightarrow> nat" where
  "status (Response n b) = n"

section \<open>Object ids\<close>

text \<open>
  \<open>new Types.ObjectId(s)\<close> for a string: 24 hexadecimal digits name twelve bytes, anything
  else throws.  An object id is kept as its canonical (lowercase) hexadecimal text, which
  is also what \<open>toString()\<close> gives back.
\<close>

type_synonym objectId = jsString

definition hexLower :: "codeUnit \<Rightarrow> codeUnit" where
  "hexLower n = (if 65 \<le> n \<and> n \<le> 70 then n + 32 else n)"

definition ObjectId :: "jsString \<Rightarrow> error + objectId" where
  "ObjectId s = (if length s = 24 \<and> list_all isHexDigit s then Inr (map hexLower s) else Inl BSONError)"

section \<open>The outside world\<close>

text \<open>
  A JavaScript number is an IEEE double.  The doubles are not written out here: \<open>'n\<close>
  is the type of the numbers, linearly ordered by \<open><\<close> (the comparator
  \<open>(a, b) => a.temp - b.temp\<close> of the heuristic puts \<open>a\<close> first exactly when
  \<open>a.temp < b.temp\<close>), and what the program does with numbers besides comparing them
  (\<open>parseFloat\<close>, the literal \<open>0\<close>, \<open>+\<close>, the division by the length of an array,
  \<open>toFixed(1)\<close>) is a function of the environment.
\<close>

record 'n ResolvedLocation =
  loc_name :: jsString
  loc_country :: "jsString option"
  lat :: 'n
  lon :: 'n

text \<open>The fields \<open>fetchWeatherForCity\<close> reads from the provider's answer.\<close>

record 'n weatherBody =
  wb_name :: jsString
  wb_country :: "jsString option"
  wb_temp :: "'n option"
  wb_description :: "jsString option"
  wb_icon :: "jsString option"

record 'n WeatherData =
  cityName :: jsString
  country :: "jsString option"
  temperature :: "'n option"
  description :: jsString
  icon :: jsString

text \<open>
  The answer of the generative API: \<open>response.data.candidates\<close> when it is an array
  (\<open>None\<close> otherwise); of a candidate, \<open>content.parts\<close> when it is an array; of a part,
  \<open>text\<close> when it is a string.
\<close>

type_synonym candidate = "jsString option list option"

text \<open>
  The environment: the variables the services read, the three HTTP providers (each a
  function from what is sent to what comes back or is thrown), the library functions of
  the authentication service, the case mappings of strings on a string that is not empty
  (\<open>lowerCaseOf\<close>, \<open>upperCaseOf\<close>), and the arithmetic of numbers: \<open>parseFloat\<close>
  (\<open>None\<close> is NaN), the number \<open>0\<close>, \<open>x + y\<close>, \<open>x / n\<close> for the length \<open>n\<close> of an array,
  and \<open>x.toFixed(1)\<close>.
\<close>

record 'n env =
  OPENWEATHER_API_KEY :: "jsString option"
  geoGet :: "jsString \<Rightarrow> error + 'n ResolvedLocation list"
  weatherGet :: "jsString \<Rightarrow> error + 'n weatherBody"
  GEMINI_API_KEY :: "jsString option"
  geminiPost :: "jsString \<Rightarrow> error + candidate list option"
  JWT_SECRET :: "jsString option"
  bcryptCompare :: "jsString \<Rightarrow> jsString \<Rightarrow> bool"
  jwtSign :: "jsString \<Rightarrow> jsString \<Rightarrow> jsString"
  lowerCaseOf :: "jsString \<Rightarrow> jsString"
  upperCaseOf :: "jsString \<Rightarrow> jsString"
  parseFloat :: "jsString \<Rightarrow> 'n option"
  numZero :: 'n
  numAdd :: "'n \<Rightarrow> 'n \<Rightarrow> 'n"
  numDivLength :: "'n \<Rightarrow> nat \<Rightarrow> 'n"
  toFixed1 :: "'n \<Rightarrow> jsString"

text \<open>
  \<open>String.prototype.toLowerCase\<close> and \<open>String.prototype.toUpperCase\<close>: the empty string
  has nothing to map.
\<close>

definition toLowerCase :: "'n env \<Rightarrow> jsString \<Rightarrow> jsString" where
  "toLowerCase e s = (if s = [] then [] else lowerCaseOf e s)"

definition toUpperCase :: "'n env \<Rightarrow> jsString \<Rightarrow> jsString" where
  "toUpperCase e s = (if s = [] then [] else upperCaseOf e s)"

text \<open>An external call a handler issued, with the query or prompt it sent.\<close>

datatype extCall = GeoCall jsString | WeatherCall jsString | AiCall jsString

section \<open>The City collection\<close>

text \<open>
  \<open>ICity\<close> of city.model.ts, with the two fields that \<open>timestamps: true\<close> adds to the
  schema.  A time is a number of milliseconds, as \<open>Date.now()\<close> counts them.  The collection is the list of its
  documents in insertion order.
\<close>

record city =
  c_id :: objectId
  c_userId :: objectId
  c_name :: jsString
  c_nameNormalized :: jsString
  c_country :: "jsString option"
  c_apiCityId :: "jsString option"
  c_isFavorite :: bool
  c_createdAt :: int
  c_updatedAt :: int

text \<open>The argument of \<open>createCityForUser\<close>.\<close>

record cityInput =
  p_userId :: jsString
  p_name :: jsString
  p_nameNormalized :: jsString
  p_country :: "jsString option"

text \<open>The key of the unique index \<open>{ userId: 1, nameNormalized: 1, country: 1 }\<close>.\<close>

definition indexKey :: "city \<Rightarrow> objectId \<times> jsString \<times> jsString option" where
  "indexKey d = (c_userId d, c_nameNormalized d, c_country d)"

text \<open>
  \<open>doc.save()\<close> of a new document: the schema's \<open>required\<close> strings must be non-empty,
  and the insert is refused when the \<open>_id\<close> or the key of the unique index is taken.
\<close>

definition save :: "city \<Rightarrow> city list \<Rightarrow> error + city \<times> city list" where
  "save doc store =
     (if c_name doc = [] \<or> c_nameNormalized doc = [] then Inl ValidationError
      else if c_id doc \<in> set (map c_id store) then Inl DuplicateKey
      else if indexKey doc \<in> set (map indexKey store) then Inl DuplicateKey
      else Inr (doc, store @ [doc]))"

text \<open>
  \<open>createCityForUser\<close>.  \<open>newId\<close> is the \<open>_id\<close> the driver generates for the new
  document and \<open>now\<close> the time of the insert, which becomes \<open>createdAt\<close> and \<open>updatedAt\<close>;
  the schema lowercases \<open>nameNormalized\<close> when it is set (\<open>lowercase: true\<close>) and defaults
  \<open>isFavorite\<close> to false.
\<close>

definition createCityForUser ::
  "'n env \<Rightarrow> int \<Rightarrow> objectId \<Rightarrow> cityInput \<Rightarrow> city list \<Rightarrow> error + city \<times> city list" where
  "createCityForUser e now newId c store =
     (case ObjectId (p_userId c) of
        Inl err \<Rightarrow> Inl err
      | Inr uid \<Rightarrow>
          save \<lparr> c_id = newId, c_userId = uid, c_name = p_name c,
                 c_nameNormalized = toLowerCase e (p_nameNormalized c),
                 c_country = p_country c, c_apiCityId = None, c_isFavorite = False,
                 c_createdAt = now, c_updatedAt = now \<rparr> store)"

text \<open>
  \<open>listCitiesForUser\<close>: the user's documents by \<open>createdAt\<close>, newest first (of two
  documents of the same millisecond, the one inserted later comes first here; the database
  promises no order between them).
\<close>

definition listCitiesForUser :: "jsString \<Rightarrow> city list \<Rightarrow> error + city list" where
  "listCitiesForUser userId store =
     (case ObjectId userId of
        Inl e \<Rightarrow> Inl e
      | Inr uid \<Rightarrow> Inr (rev (sort_key c_createdAt (filter (\<lambda>d. c_userId d = uid) store))))"

definition findCityByIdForUser :: "jsString \<Rightarrow> jsString \<Rightarrow> city list \<Rightarrow> error + city option" where
  "findCityByIdForUser cityId userId store =
     (case ObjectId cityId of
        Inl e \<Rightarrow> Inl e
      | Inr cid \<Rightarrow>
          (case ObjectId userId of
             Inl e \<Rightarrow> Inl e
           | Inr uid \<Rightarrow> Inr (find (\<lambda>d. c_id d = cid \<and> c_userId d = uid) store)))"

text \<open>\<open>deleteOne(filter)\<close> removes the first document the filter matches, if any.\<close>

fun deleteOne :: "(city \<Rightarrow> bool) \<Rightarrow> city list \<Rightarrow> city list" where
  "deleteOne q [] = []"
| "deleteOne q (d # ds) = (if q d then ds else d # deleteOne q ds)"

definition deleteCityForUser :: "jsString \<Rightarrow> jsString \<Rightarrow> city list \<Rightarrow> error + city list" where
  "deleteCityForUser cityId userId store =
     (case ObjectId cityId of
        Inl e \<Rightarrow> Inl e
      | Inr cid \<Rightarrow>
          (case ObjectId userId of
             Inl e \<Rightarrow> Inl e
           | Inr uid \<Rightarrow> Inr (deleteOne (\<lambda>d. c_id d = cid \<and> c_userId d = uid) store)))"

text \<open>
  \<open>findOneAndUpdate(filter, update, { new: true })\<close> updates the first document the
  filter matches and returns it as updated, or returns null.  With \<open>timestamps: true\<close>
  the update of a document also sets its \<open>updatedAt\<close> to \<open>now\<close>, the time of the call.
\<close>

fun findOneAndUpdate ::
  "(city \<Rightarrow> bool) \<Rightarrow> (city \<Rightarrow> city) \<Rightarrow> int \<Rightarrow> city list \<Rightarrow> city option \<times> city list" where
  "findOneAndUpdate q u now [] = (None, [])"
| "findOneAndUpdate q u now (d # ds) =
     (if q d then (Some ((u d)\<lparr>c_updatedAt := now\<rparr>), (u d)\<lparr>c_updatedAt := now\<rparr> # ds)
      else (case findOneAndUpdate q u now ds of (r, ds') \<Rightarrow> (r, d # ds')))"

text \<open>\<open>updateCityFavoriteForUser\<close>; \<open>now\<close> is the time of the call.\<close>

definition updateCityFavoriteForUser ::
  "jsString \<Rightarrow> jsString \<Rightarrow> bool \<Rightarrow> int \<Rightarrow> city list \<Rightarrow> (error + city option) \<times> city list" where
  "updateCityFavoriteForUser cityId userId isFavorite now store =
     (case ObjectId cityId of
        Inl e \<Rightarrow> (Inl e, store)
      | Inr cid \<Rightarrow>
          (case ObjectId userId of
             Inl e \<Rightarrow> (Inl e, store)
           | Inr uid \<Rightarrow>
               (case findOneAndUpdate (\<lambda>d. c_id d = cid \<and> c_userId d = uid)
                       (\<lambda>d. d\<lparr>c_isFavorite := isFavorite\<rparr>) now store of
                  (r, store') \<Rightarrow> (Inr r, store'))))"

section \<open>Geocoding and weather services\<close>

definition getApiConfig :: "'n env \<Rightarrow> error + jsString" where
  "getApiConfig e =
     (case OPENWEATHER_API_KEY e of
        None \<Rightarrow> Inl (Error ''OPENWEATHER_API_KEY is not defined in environment variables'')
      | Some apiKey \<Rightarrow>
          if apiKey = [] then Inl (Error ''OPENWEATHER_API_KEY is not defined in environment variables'')
          else Inr apiKey)"

definition resolveCity ::
  "'n env \<Rightarrow> jsString \<Rightarrow> jsString option \<Rightarrow> (error + 'n ResolvedLocation list) \<times> extCall list" where
  "resolveCity e name countryCode =
     (case getApiConfig e of
        Inl err \<Rightarrow> (Inl err, [])
      | Inr apiKey \<Rightarrow>
          (let q = (case countryCode of
                      None \<Rightarrow> name
                    | Some cc \<Rightarrow> if cc = [] then name else name @ lit '','' @ cc)
           in (geoGet e q, [GeoCall q])))"

text \<open>
  \<open>resolveExactCity\<close>: an item is kept when its name is non-empty and, trimmed and
  lowercased, equals the trimmed and lowercased name that was asked for.
\<close>

definition isExactMatch :: "'n env \<Rightarrow> jsString \<Rightarrow> 'n ResolvedLocation \<Rightarrow> bool" where
  "isExactMatch e name item =
     (loc_name item \<noteq> [] \<and> toLowerCase e (trim (loc_name item)) = toLowerCase e (trim name))"

definition resolveExactCity ::
  "'n env \<Rightarrow> jsString \<Rightarrow> jsString option \<Rightarrow> (error + 'n ResolvedLocation list) \<times> extCall list" where
  "resolveExactCity e name countryCode =
     (case resolveCity e name countryCode of
        (Inl err, calls) \<Rightarrow> (Inl err, calls)
      | (Inr raw, calls) \<Rightarrow> (Inr (filter (isExactMatch e name) raw), calls))"

definition fetchWeatherForCity :: "'n env \<Rightarrow> city \<Rightarrow> (error + 'n WeatherData) \<times> extCall list" where
  "fetchWeatherForCity e c =
     (case getApiConfig e of
        Inl err \<Rightarrow> (Inl err, [])
      | Inr apiKey \<Rightarrow>
          (let q = (case c_country c of
                      None \<Rightarrow> c_name c
                    | Some cc \<Rightarrow> if cc = [] then c_name c else c_name c @ lit '','' @ cc)
           in (case weatherGet e q of
                 Inl err \<Rightarrow> (Inl err, [WeatherCall q])
               | Inr data \<Rightarrow>
                   (Inr \<lparr> cityName = wb_name data, country = wb_country data,
                          temperature = wb_temp data,
                          description = (case wb_description data of None \<Rightarrow> [] | Some d \<Rightarrow> d),
                          icon = (case wb_icon data of None \<Rightarrow> [] | Some i \<Rightarrow> i) \<rparr>,
                    [WeatherCall q]))))"

section \<open>Handlers of the city controller\<close>

text \<open>
  Every route of the city controller and of the AI controller is mounted behind
  \<open>authMiddleware\<close>, which answers 401 itself or sets \<open>req.user\<close>; each handler tests
  \<open>req.user\<close> once more.  The \<open>user\<close> of a handler below is \<open>req.user?.id\<close>.
\<close>

text \<open>The JSON a handler answers with for one city document.\<close>

definition cityJson :: "city \<Rightarrow> body" where
  "cityJson d = CityJson (c_id d) (c_name d) (c_country d) (c_isFavorite d)"

text \<open>
  \<open>deleteCity\<close>: \<open>user\<close> is \<open>req.user?.id\<close>, \<open>cid\<close> is \<open>req.params.id\<close>.  The result of
  \<open>deleteCityForUser\<close> is not looked at.
\<close>

definition deleteCity :: "jsString option \<Rightarrow> jsString \<Rightarrow> city list \<Rightarrow> response \<times> city list" where
  "deleteCity user cid store =
     (case user of
        None \<Rightarrow> (Response 401 (Message ''Unauthorized''), store)
      | Some uid \<Rightarrow>
          (case deleteCityForUser cid uid store of
             Inl e \<Rightarrow> (Response 500 (Message ''Internal server error''), store)
           | Inr store' \<Rightarrow> (Response 204 NoBody, store')))"

text \<open>
  \<open>toggleFavorite\<close>: \<open>isFavorite\<close> is the field of that name in the request body, \<open>now\<close>
  the time of the request.
\<close>

definition toggleFavorite ::
  "jsString option \<Rightarrow> jsString \<Rightarrow> jsValue \<Rightarrow> int \<Rightarrow> city list \<Rightarrow> response \<times> city list" where
  "toggleFavorite user cid isFavorite now store =
     (case user of
        None \<Rightarrow> (Response 401 (Message ''Unauthorized''), store)
      | Some uid \<Rightarrow>
          (case updateCityFavoriteForUser cid uid (truthy isFavorite) now store of
             (Inl e, store') \<Rightarrow> (Response 500 (Message ''Internal server error''), store')
           | (Inr None, store') \<Rightarrow> (Response 404 (Message ''City not found''), store')
           | (Inr (Some d), store') \<Rightarrow> (Response 200 (cityJson d), store')))"

text \<open>
  The body of \<open>createCity\<close>.  \<open>cr_user\<close> is \<open>req.user?.id\<close>; \<open>cr_name\<close> and
  \<open>cr_country\<close> are the fields of the request body.
\<close>

record createCityReq =
  cr_user :: "jsString option"
  cr_name :: "jsString option"
  cr_country :: "jsString option"

text \<open>\<open>country && country.trim() ? country.trim().toUpperCase() : undefined\<close>\<close>

definition normalizedCountryOf :: "'n env \<Rightarrow> jsString option \<Rightarrow> jsString option" where
  "normalizedCountryOf e c =
     (case c of
        None \<Rightarrow> None
      | Some s \<Rightarrow> if s \<noteq> [] \<and> trim s \<noteq> [] then Some (toUpperCase e (trim s)) else None)"

text \<open>The test \<open>/^[A-Za-z]{2}$/\<close>.\<close>

definition isTwoLetterCode :: "jsString \<Rightarrow> bool" where
  "isTwoLetterCode s = (length s = 2 \<and> list_all isAsciiLetter s)"

text \<open>\<open>m.country?.toUpperCase()\<close>\<close>

definition upperCountry :: "'n env \<Rightarrow> 'n ResolvedLocation \<Rightarrow> jsString option" where
  "upperCountry e m = map_option (toUpperCase e) (loc_country m)"

text \<open>The distinct non-empty uppercased country codes of the matches.\<close>

definition distinctCountries :: "'n env \<Rightarrow> 'n ResolvedLocation list \<Rightarrow> jsString list" where
  "distinctCountries e ms = remdups (filter (\<lambda>c. c \<noteq> []) (List.map_filter (upperCountry e) ms))"

text \<open>
  The test of the \<open>catch\<close> around the weather probe:
  \<open>status === 404 || code === 404 || message === "city not found"\<close>.
\<close>

fun isCityNotFound :: "error \<Rightarrow> bool" where
  "isCityNotFound (AxiosError st cod msg) =
     (st = Some 404 \<or> cod = JNumber 404 \<or> msg = JString (lit ''city not found''))"
| "isCityNotFound err = False"

text \<open>
  The weather probe of \<open>createCity\<close>: the city handed to \<open>fetchWeatherForCity\<close> is built
  from the payload, and building it throws when the user id is no object id.  The object
  of the probe has a throw-away \<open>_id\<close> and no timestamps; \<open>fetchWeatherForCity\<close> reads
  none of them.
\<close>

definition probeWeather :: "'n env \<Rightarrow> objectId \<Rightarrow> cityInput \<Rightarrow> (error + 'n WeatherData) \<times> extCall list" where
  "probeWeather e tmpId payload =
     (case ObjectId (p_userId payload) of
        Inl err \<Rightarrow> (Inl err, [])
      | Inr uid \<Rightarrow>
          fetchWeatherForCity e
            \<lparr> c_id = tmpId, c_userId = uid, c_name = p_name payload,
              c_nameNormalized = p_nameNormalized payload, c_country = p_country payload,
              c_apiCityId = None, c_isFavorite = False, c_createdAt = 0, c_updatedAt = 0 \<rparr>)"

text \<open>
  The insert and the answer to it (the source has this block once in each branch).  An
  error of the insert is caught by the \<open>catch\<close> that answers 400.
\<close>

definition persistCity ::
  "'n env \<Rightarrow> int \<Rightarrow> objectId \<Rightarrow> cityInput \<Rightarrow> city list \<Rightarrow> extCall list \<Rightarrow> response \<times> city list \<times> extCall list" where
  "persistCity e now newId payload store calls =
     (case createCityForUser e now newId payload store of
        Inl err \<Rightarrow> (Response 400 (Message ''City already exists in your list''), store, calls)
      | Inr (doc, store') \<Rightarrow> (Response 201 (cityJson doc), store', calls))"

text \<open>
  The \<open>try\<close> around the weather probe (once in each branch of the source): a probe that
  fails as not found answers 400, any other failure of the probe is dropped and the
  handler goes on to the insert.
\<close>

definition validateWeather ::
  "'n env \<Rightarrow> objectId \<Rightarrow> cityInput \<Rightarrow> extCall list \<Rightarrow> response \<times> extCall list + cityInput \<times> extCall list" where
  "validateWeather e tmpId payload calls =
     (case probeWeather e tmpId payload of
        (Inl err, wcalls) \<Rightarrow>
          if isCityNotFound err
          then Inl (Response 400 (Message (''We couldn'' @ [CHR 0x27] @ ''t load weather for this city. It may not exist or be supported.'')),
                    calls @ wcalls)
          else Inr (payload, calls @ wcalls)
      | (Inr w, wcalls) \<Rightarrow> Inr (payload, calls @ wcalls))"

text \<open>
  \<open>createCity\<close> up to the insert: this part never touches the collection.  It ends
  either with the response that rejects the request (\<open>Inl\<close>) or with the payload that
  goes to \<open>createCityForUser\<close> (\<open>Inr\<close>), and in both cases with the external calls made.
  An error thrown by the geocoding lookup is caught by the \<open>catch\<close> that answers
  "City already exists in your list".
\<close>

definition planCity ::
  "'n env \<Rightarrow> objectId \<Rightarrow> createCityReq \<Rightarrow> response \<times> extCall list + cityInput \<times> extCall list" where
  "planCity e tmpId req =
     (case cr_user req of
        None \<Rightarrow> Inl (Response 401 (Message ''Unauthorized''), [])
      | Some uid \<Rightarrow>
          (case cr_name req of
             None \<Rightarrow> Inl (Response 400 (Message ''City name is required''), [])
           | Some name \<Rightarrow>
               if name = [] \<or> trim name = []
               then Inl (Response 400 (Message ''City name is required''), [])
               else
                 (let normalizedName = trim name;
                      normalizedCountry = normalizedCountryOf e (cr_country req)
                  in if (case normalizedCountry of None \<Rightarrow> False | Some nc \<Rightarrow> nc \<noteq> [] \<and> \<not> isTwoLetterCode nc)
                     then Inl (Response 400 (Message ''Country code must be a valid 2-letter ISO code''), [])
                     else
                       (case resolveExactCity e normalizedName normalizedCountry of
                          (Inl err, calls) \<Rightarrow>
                            Inl (Response 400 (Message ''City already exists in your list''), calls)
                        | (Inr exactMatches, calls) \<Rightarrow>
                            (if truthyStr normalizedCountry
                             then
                                 (case filter (\<lambda>m. upperCountry e m = normalizedCountry) exactMatches of
                                    [] \<Rightarrow>
                                      Inl (Response 400 (Message (''We couldn'' @ [CHR 0x27] @ ''t find that city in the specified country. Please check the name and country code.'')),
                                           calls)
                                  | best # rest \<Rightarrow>
                                      validateWeather e tmpId
                                        \<lparr> p_userId = uid, p_name = loc_name best,
                                          p_nameNormalized = toLowerCase e (loc_name best),
                                          p_country = upperCountry e best \<rparr> calls)
                             else
                                 (case exactMatches of
                                    [] \<Rightarrow>
                                      Inl (Response 400 (Message (''We couldn'' @ [CHR 0x27] @ ''t find that city. Please check the spelling.'')),
                                           calls)
                                  | best # rest \<Rightarrow>
                                      if length (distinctCountries e exactMatches) > 1
                                      then Inl (Response 400 (Message ''This city exists in multiple countries. Please provide a country code.''),
                                                calls)
                                      else
                                        validateWeather e tmpId
                                          \<lparr> p_userId = uid, p_name = loc_name best,
                                            p_nameNormalized = toLowerCase e (loc_name best),
                                            p_country = (if truthyStr (loc_country best) then upperCountry e best else None) \<rparr>
                                          calls))))))"

text \<open>
  \<open>createCity\<close>: \<open>newId\<close> is the object id the driver generates (for the probe's
  throw-away city and for the new document), \<open>now\<close> the time of the request.
\<close>

definition createCity ::
  "'n env \<Rightarrow> int \<Rightarrow> objectId \<Rightarrow> createCityReq \<Rightarrow> city list \<Rightarrow> response \<times> city list \<times> extCall list" where
  "createCity e now newId req store =
     (case planCity e newId req of
        Inl (resp, calls) \<Rightarrow> (resp, store, calls)
      | Inr (payload, calls) \<Rightarrow> persistCity e now newId payload store calls)"

text \<open>
  The collections the handlers can produce from the empty one, when each request is
  served in an environment of \<open>E\<close>: the three handlers that write are \<open>createCity\<close>,
  \<open>deleteCity\<close> and \<open>toggleFavorite\<close>.
\<close>

inductive reachable :: "'n env set \<Rightarrow> city list \<Rightarrow> bool" for E :: "'n env set" where
  init: "reachable E []"
| created: "reachable E s \<Longrightarrow> e \<in> E \<Longrightarrow> reachable E (fst (snd (createCity e now newId req s)))"
| deleted: "reachable E s \<Longrightarrow> reachable E (snd (deleteCity user cid s))"
| toggled: "reachable E s \<Longrightarrow> reachable E (snd (toggleFavorite user cid v now s))"

text \<open>
  What holds of every collection the handlers produce: the \<open>_id\<close>s are distinct and the
  keys of the unique index are distinct.
\<close>

definition storeInv :: "city list \<Rightarrow> bool" where
  "storeInv s = (distinct (map c_id s) \<and> distinct (map indexKey s))"

section \<open>Authentication service and controller\<close>

text \<open>
  \<open>IUser\<close>, and the User collection as the list of its documents.  \<open>findUserByEmail\<close>
  is \<open>UserModel.findOne({ email })\<close>.
\<close>

record user =
  u_id :: objectId
  u_name :: jsString
  u_email :: jsString
  u_passwordHash :: jsString

definition findUserByEmail :: "user list \<Rightarrow> jsString \<Rightarrow> user option" where
  "findUserByEmail users email = find (\<lambda>u. u_email u = email) users"

definition getJwtSecret :: "'n env \<Rightarrow> error + jsString" where
  "getJwtSecret e =
     (case JWT_SECRET e of
        None \<Rightarrow> Inl (Error ''JWT_SECRET is not defined in environment variables'')
      | Some secret \<Rightarrow>
          if secret = [] then Inl (Error ''JWT_SECRET is not defined in environment variables'')
          else Inr secret)"

text \<open>
  \<open>loginUser\<close>: \<open>bcrypt.compare\<close> and \<open>jwt.sign\<close> are the environment's; the token is
  signed over the user's id with the secret.
\<close>

definition loginUser :: "'n env \<Rightarrow> user list \<Rightarrow> jsString \<Rightarrow> jsString \<Rightarrow> error + jsString \<times> user" where
  "loginUser e users email password =
     (case findUserByEmail users email of
        None \<Rightarrow> Inl (Error ''INVALID_CREDENTIALS'')
      | Some u \<Rightarrow>
          if \<not> bcryptCompare e password (u_passwordHash u) then Inl (Error ''INVALID_CREDENTIALS'')
          else
            (case getJwtSecret e of
               Inl err \<Rightarrow> Inl err
             | Inr secret \<Rightarrow> Inr (jwtSign e (u_id u) secret, u)))"

text \<open>
  The \<open>login\<close> handler: the two arguments are the fields \<open>email\<close> and \<open>password\<close> of
  the request body; a field that is missing or empty is falsy.
\<close>

definition login :: "'n env \<Rightarrow> user list \<Rightarrow> jsString option \<Rightarrow> jsString option \<Rightarrow> response" where
  "login e users emailField passwordField =
     (case (emailField, passwordField) of
        (Some email, Some password) \<Rightarrow>
          if email = [] \<or> password = []
          then Response 400 (Message ''email and password are required'')
          else
            (case loginUser e users email password of
               Inr (token, u) \<Rightarrow> Response 200 (LoginJson token (u_id u) (u_name u) (u_email u))
             | Inl err \<Rightarrow>
                 if err = Error ''INVALID_CREDENTIALS''
                 then Response 401 (Message ''Invalid email or password'')
                 else Response 500 (Message ''Internal server error''))
      | _ \<Rightarrow> Response 400 (Message ''email and password are required''))"

section \<open>AI service\<close>

text \<open>\<open>Array.prototype.join\<close> and \<open>String.prototype.split\<close> on one code unit.\<close>

fun join :: "jsString \<Rightarrow> jsString list \<Rightarrow> jsString" where
  "join sep [] = []"
| "join sep [x] = x"
| "join sep (x # y # ys) = x @ sep @ join sep (y # ys)"

fun splitOn :: "codeUnit \<Rightarrow> jsString \<Rightarrow> jsString list" where
  "splitOn c [] = [[]]"
| "splitOn c (x # xs) =
     (if x = c then [] # splitOn c xs
      else (case splitOn c xs of [] \<Rightarrow> [[x]] | l # ls \<Rightarrow> (x # l) # ls))"

text \<open>The line feed, and the degree sign (U+00B0) followed by C.\<close>

definition newline :: jsString where
  "newline = [10]"

definition degreeC :: jsString where
  "degreeC = [176, 67]"

record AiInsightResponse =
  answer :: jsString
  usedFallback :: bool

definition buildPrompt :: "jsString \<Rightarrow> jsString \<Rightarrow> jsString" where
  "buildPrompt question weatherSummary =
     join newline
       [lit (''Here is the user'' @ [CHR 0x27] @ ''s saved cities and their current weather readings:''),
        weatherSummary,
        [],
        lit (''Using ONLY this information, answer the user'' @ [CHR 0x27] @ ''s question.''),
        lit ''If the question cannot be answered from this data, explain briefly what is missing.'',
        [],
        lit ''User question: '' @ question]"

text \<open>
  The regular expressions the heuristic needs, with the backtracking matcher of
  JavaScript: \<open>Lit\<close> is a literal text, \<open>AnyLazy\<close> is \<open>.*?\<close> (as few code units as
  possible, none of them a line terminator), \<open>Digits\<close> is \<open>\d+\<close> (as many digits as
  possible), \<open>Opt r\<close> is the greedy \<open>(?:r)?\<close>, \<open>Group n r\<close> is the n-th capturing
  group.  \<open>rmatch r s caps k\<close> matches \<open>r\<close> at the start of \<open>s\<close> and hands the rest of the
  text and the captures to the continuation \<open>k\<close>; when \<open>k\<close> fails, the next alternative
  of \<open>r\<close> is tried.  \<open>search\<close> is \<open>String.prototype.match\<close> without the global flag: the
  leftmost start at which the expression matches.
\<close>

datatype regex =
    Lit jsString
  | AnyLazy
  | Digits
  | Seq regex regex
  | Opt regex
  | Group nat regex

type_synonym captures = "(nat \<times> jsString) list"

text \<open>LF, CR, U+2028 and U+2029.\<close>

definition isLineTerminator :: "codeUnit \<Rightarrow> bool" where
  "isLineTerminator c = (c = 10 \<or> c = 13 \<or> c = 8232 \<or> c = 8233)"

fun lazyAny :: "jsString \<Rightarrow> (jsString \<Rightarrow> 'a option) \<Rightarrow> 'a option" where
  "lazyAny [] k = k []"
| "lazyAny (c # cs) k =
     (case k (c # cs) of
        Some r \<Rightarrow> Some r
      | None \<Rightarrow> if isLineTerminator c then None else lazyAny cs k)"

fun greedyDigits :: "jsString \<Rightarrow> (jsString \<Rightarrow> 'a option) \<Rightarrow> 'a option" where
  "greedyDigits [] k = None"
| "greedyDigits (c # cs) k =
     (if isDigit c
      then (case greedyDigits cs k of Some r \<Rightarrow> Some r | None \<Rightarrow> k cs)
      else None)"

fun rmatch :: "regex \<Rightarrow> jsString \<Rightarrow> captures \<Rightarrow> (jsString \<Rightarrow> captures \<Rightarrow> 'a option) \<Rightarrow> 'a option" where
  "rmatch (Lit l) s caps k = (if take (length l) s = l then k (drop (length l) s) caps else None)"
| "rmatch AnyLazy s caps k = lazyAny s (\<lambda>s'. k s' caps)"
| "rmatch Digits s caps k = greedyDigits s (\<lambda>s'. k s' caps)"
| "rmatch (Seq a b) s caps k = rmatch a s caps (\<lambda>s' caps'. rmatch b s' caps' k)"
| "rmatch (Opt r) s caps k =
     (case rmatch r s caps k of Some x \<Rightarrow> Some x | None \<Rightarrow> k s caps)"
| "rmatch (Group n r) s caps k =
     rmatch r s caps (\<lambda>s' caps'. k s' ((n, take (length s - length s') s) # caps'))"

fun search :: "regex \<Rightarrow> jsString \<Rightarrow> captures option" where
  "search r [] = rmatch r [] [] (\<lambda>s' caps. Some caps)"
| "search r (c # cs) =
     (case rmatch r (c # cs) [] (\<lambda>s' caps. Some caps) of
        Some caps \<Rightarrow> Some caps
      | None \<Rightarrow> search r cs)"

text \<open>\<open>/City: (.*?)(?: \((.*?)\))? \| (-?\d+(?:\.\d+)?)\<degree>C/\<close>\<close>

definition numberText :: regex where
  "numberText = Seq (Opt (Lit (lit ''-''))) (Seq Digits (Opt (Seq (Lit (lit ''.'')) Digits)))"

definition tempLine :: regex where
  "tempLine =
     Seq (Lit (lit ''City: ''))
    (Seq (Group 1 AnyLazy)
    (Seq (Opt (Seq (Lit (lit '' ('')) (Seq (Group 2 AnyLazy) (Lit (lit '')'')))))
    (Seq (Lit (lit '' | ''))
    (Seq (Group 3 numberText)
         (Lit degreeC)))))"

text \<open>
  The loop of \<open>heuristicFallback\<close> over the lines: a line that does not match, or whose
  city or temperature text is empty, or whose temperature text \<open>parseFloat\<close> turns into
  NaN, is skipped.
\<close>

fun collectTemps :: "'n env \<Rightarrow> jsString list \<Rightarrow> (jsString \<times> 'n) list" where
  "collectTemps e [] = []"
| "collectTemps e (line # rest) =
     (case search tempLine line of
        None \<Rightarrow> collectTemps e rest
      | Some m \<Rightarrow>
          (case (map_of m 1, map_of m 3) of
             (Some cityMatch, Some tempMatch) \<Rightarrow>
               if cityMatch = [] \<or> tempMatch = [] then collectTemps e rest
               else
                 (case parseFloat e tempMatch of
                    None \<Rightarrow> collectTemps e rest
                  | Some temp \<Rightarrow> (trim cityMatch, temp) # collectTemps e rest)
           | _ \<Rightarrow> collectTemps e rest))"

definition summaryLines :: "jsString \<Rightarrow> jsString list" where
  "summaryLines weatherSummary = filter (\<lambda>l. l \<noteq> []) (map trim (splitOn 10 weatherSummary))"

text \<open>
  \<open>heuristicFallback\<close>.  \<open>sort_key\<close> is a stable sort, as \<open>Array.prototype.sort\<close> is; the
  sum of \<open>reduce\<close> starts from \<open>0\<close> and adds the temperatures in the sorted order.
\<close>

definition heuristicFallback :: "('n::linorder) env \<Rightarrow> jsString \<Rightarrow> jsString \<Rightarrow> AiInsightResponse" where
  "heuristicFallback e question weatherSummary =
     (let lines = summaryLines weatherSummary
      in if lines = []
         then \<lparr> answer = lit (''I don'' @ [CHR 0x27] @ ''t have any weather data yet. Add cities and load their weather, then try asking for insights again.''),
                usedFallback = True \<rparr>
         else
           (let temps = collectTemps e lines;
                summary0 = lit ''Here is a quick heuristic summary based on your cities:'';
                summary1 =
                  (if temps \<noteq> []
                   then (let sorted = sort_key snd temps;
                             coldest = hd sorted;
                             warmest = last sorted;
                             avg = numDivLength e (foldl (numAdd e) (numZero e) (map snd sorted)) (length sorted)
                         in summary0
                            @ newline @ lit ''- Coldest city: '' @ fst coldest @ lit '' at '' @ toFixed1 e (snd coldest) @ degreeC @ lit ''.''
                            @ newline @ lit ''- Warmest city: '' @ fst warmest @ lit '' at '' @ toFixed1 e (snd warmest) @ degreeC @ lit ''.''
                            @ newline @ lit ''- Average temperature across your cities: '' @ toFixed1 e avg @ degreeC @ lit ''.'')
                   else summary0)
            in \<lparr> answer = summary1 @ newline @ newline
                     @ lit ''AI provider is not configured or not reachable, so this is a simple heuristic summary instead of a full AI answer.'',
                 usedFallback = True \<rparr>))"

text \<open>The text of the first candidate's parts, when there are any.\<close>

definition candidateText :: "candidate list option \<Rightarrow> jsString option" where
  "candidateText candidates =
     (case candidates of
        None \<Rightarrow> None
      | Some [] \<Rightarrow> None
      | Some (firstCandidate # others) \<Rightarrow>
          (case firstCandidate of
             None \<Rightarrow> None
           | Some [] \<Rightarrow> None
           | Some parts \<Rightarrow>
               Some (trim (join (newline @ newline)
                       (map (\<lambda>p. case p of None \<Rightarrow> [] | Some t \<Rightarrow> t) parts)))))"

text \<open>
  \<open>getAiInsight\<close>: the heuristic when no API key is configured or the call throws.
\<close>

definition getAiInsight :: "('n::linorder) env \<Rightarrow> jsString \<Rightarrow> jsString \<Rightarrow> AiInsightResponse \<times> extCall list" where
  "getAiInsight e question weatherSummary =
     (if \<not> truthyStr (GEMINI_API_KEY e) then (heuristicFallback e question weatherSummary, [])
      else
        (let prompt = buildPrompt question weatherSummary
         in (case geminiPost e prompt of
               Inl err \<Rightarrow> (heuristicFallback e question weatherSummary, [AiCall prompt])
             | Inr candidates \<Rightarrow>
                 (\<lparr> answer = (case candidateText candidates of
                                 None \<Rightarrow> lit (''I couldn'' @ [CHR 0x27] @ ''t generate insights right now.'')
                               | Some t \<Rightarrow> if t \<noteq> [] then t
                                           else lit (''I couldn'' @ [CHR 0x27] @ ''t generate insights right now.'')),
                     usedFallback = False \<rparr>,
                  [AiCall prompt]))))"

section \<open>AI controller\<close>

text \<open>The line \<open>getInsights\<close> writes for one city's weather.\<close>

definition weatherLine :: "'n env \<Rightarrow> 'n WeatherData \<Rightarrow> 'n \<Rightarrow> jsString" where
  "weatherLine e w t =
     lit ''City: '' @ cityName w
       @ (case country w of None \<Rightarrow> [] | Some c \<Rightarrow> if c = [] then [] else lit '' ('' @ c @ lit '')'')
       @ lit '' | '' @ toFixed1 e t @ degreeC @ lit '', '' @ description w"

text \<open>
  One turn of the loop of \<open>getInsights\<close>: the \<open>try\<close> that fetches the weather and
  pushes the line, and the \<open>catch\<close> that skips the city.  \<open>toFixed\<close> on a temperature
  that is undefined throws as well.
\<close>

definition cityLine :: "'n env \<Rightarrow> city \<Rightarrow> jsString option \<times> extCall list" where
  "cityLine e c =
     (case fetchWeatherForCity e c of
        (Inl err, calls) \<Rightarrow> (None, calls)
      | (Inr w, calls) \<Rightarrow>
          (case temperature w of
             None \<Rightarrow> (None, calls)
           | Some t \<Rightarrow> (Some (weatherLine e w t), calls)))"

fun weatherLines :: "'n env \<Rightarrow> city list \<Rightarrow> jsString list \<times> extCall list" where
  "weatherLines e [] = ([], [])"
| "weatherLines e (c # cs) =
     (case cityLine e c of
        (l, calls) \<Rightarrow>
          (case weatherLines e cs of
             (ls, calls') \<Rightarrow> ((case l of None \<Rightarrow> ls | Some x \<Rightarrow> x # ls), calls @ calls')))"

text \<open>
  \<open>getInsights\<close>: \<open>user\<close> is \<open>req.user?.id\<close>, \<open>questionField\<close> the field \<open>question\<close> of
  the request body.
\<close>

definition getInsights ::
  "('n::linorder) env \<Rightarrow> jsString option \<Rightarrow> jsString option \<Rightarrow> city list \<Rightarrow> response \<times> extCall list" where
  "getInsights e user questionField store =
     (case user of
        None \<Rightarrow> (Response 401 (Message ''Unauthorized''), [])
      | Some uid \<Rightarrow>
          (case questionField of
             None \<Rightarrow> (Response 400 (Message ''Question is required''), [])
           | Some question \<Rightarrow>
               if question = [] \<or> trim question = []
               then (Response 400 (Message ''Question is required''), [])
               else
                 (case listCitiesForUser uid store of
                    Inl err \<Rightarrow> (Response 500 (Message ''Failed to generate AI insights''), [])
                  | Inr cities \<Rightarrow>
                      if cities = []
                      then (Response 400 (Message (''You don'' @ [CHR 0x27] @ ''t have any cities yet. Add some cities first.'')), [])
                      else
                        (case weatherLines e cities of
                           (ls, calls) \<Rightarrow>
                             (case getAiInsight e (trim question) (join newline ls) of
                                (aiResult, aiCalls) \<Rightarrow>
                                  (Response 200 (InsightJson (answer aiResult) (usedFallback aiResult)),
                                   calls @ aiCalls))))))"

section \<open>Example data\<close>

text \<open>
  Concrete users, documents, requests and an environment, on which the theorems below are
  instantiated.

  The case mappings of the example environment are those of Unicode on the code units
  below 256 (the examples contain no others): \<open>toLowerCase\<close> maps A-Z and the capital
  letters U+00C0 to U+00DE (but not the multiplication sign U+00D7) 32 code units up;
  \<open>toUpperCase\<close> maps a-z and the small letters U+00E0 to U+00FE (but not the division
  sign U+00F7) 32 code units down, the sharp s (U+00DF) to SS, the micro sign (U+00B5) to
  U+039C and U+00FF to U+0178.

  The numbers of the example environment are exact rationals: \<open>exampleParseFloat\<close> gives
  a decimal text its value, \<open>exampleToFixed1\<close> writes the tenth nearest to a value (of two
  nearest tenths the one further from zero), and sums and quotients are exact.  On the
  temperatures of the examples (-3, 12.5 and 29.5, with the sums -3, 9.5, 39 and the mean
  13) this is the arithmetic of the doubles, which represents each of these values.
\<close>

definition exampleLowerUnit :: "codeUnit \<Rightarrow> codeUnit" where
  "exampleLowerUnit n =
     (if (65 \<le> n \<and> n \<le> 90) \<or> (192 \<le> n \<and> n \<le> 222 \<and> n \<noteq> 215) then n + 32 else n)"

definition exampleUpperUnit :: "codeUnit \<Rightarrow> jsString" where
  "exampleUpperUnit n =
     (if (97 \<le> n \<and> n \<le> 122) \<or> (224 \<le> n \<and> n \<le> 254 \<and> n \<noteq> 247) then [n - 32]
      else if n = 223 then [83, 83]
      else if n = 181 then [924]
      else if n = 255 then [376]
      else [n])"

definition exampleLower :: "jsString \<Rightarrow> jsString" where
  "exampleLower s = map exampleLowerUnit s"

definition exampleUpper :: "jsString \<Rightarrow> jsString" where
  "exampleUpper s = concat (map exampleUpperUnit s)"

fun digitsOf :: "nat \<Rightarrow> jsString" where
  "digitsOf n = (if n < 10 then [of_nat (48 + n)] else digitsOf (n div 10) @ [of_nat (48 + n mod 10)])"

definition exampleToFixed1 :: "rat \<Rightarrow> jsString" where
  "exampleToFixed1 x =
     (let t = nat \<lfloor>\<bar>x\<bar> * 10 + 1 / 2\<rfloor>
      in (if x < 0 then lit ''-'' else []) @ digitsOf (t div 10) @ lit ''.'' @ digitsOf (t mod 10))"

definition decimalNat :: "jsString \<Rightarrow> nat" where
  "decimalNat ds = foldl (\<lambda>n c. 10 * n + (unat c - 48)) 0 ds"

definition exampleParseFloat :: "jsString \<Rightarrow> rat option" where
  "exampleParseFloat s =
     (let neg = (take 1 s = lit ''-'');
          body = (if neg \<or> take 1 s = lit ''+'' then drop 1 s else s);
          ip = takeWhile isDigit body;
          rest = dropWhile isDigit body;
          fp = (if take 1 rest = lit ''.'' then takeWhile isDigit (drop 1 rest) else []);
          v = of_nat (decimalNat ip) + of_nat (decimalNat fp) / 10 ^ length fp
      in if ip = [] \<and> fp = [] then None else Some (if neg then - v else v))"

definition userA :: jsString where "userA = lit ''aaaaaaaaaaaaaaaaaaaaaaaa''"
definition userB :: jsString where "userB = lit ''bbbbbbbbbbbbbbbbbbbbbbbb''"
definition id1 :: jsString where "id1 = lit ''111111111111111111111111''"
definition id2 :: jsString where "id2 = lit ''222222222222222222222222''"

text \<open>The name of the town of \<open>\<Eacute>vry\<close>, with U+00C9 and with U+00E9.\<close>

definition evryName :: jsString where "evryName = 201 # lit ''vry''"
definition evryTyped :: jsString where "evryTyped = 233 # lit ''vry''"

definition exampleGeo :: "rat ResolvedLocation list" where
  "exampleGeo =
     [\<lparr> loc_name = lit ''Paris'', loc_country = Some (lit ''FR''), lat = 4885 / 100, lon = 235 / 100 \<rparr>,
      \<lparr> loc_name = lit ''Paris'', loc_country = Some (lit ''US''), lat = 3366 / 100, lon = - 9555 / 100 \<rparr>,
      \<lparr> loc_name = lit ''Parys'', loc_country = Some (lit ''ZA''), lat = - 269 / 10, lon = 2745 / 100 \<rparr>,
      \<lparr> loc_name = evryName, loc_country = Some (lit ''FR''), lat = 4863 / 100, lon = 244 / 100 \<rparr>]"

definition exampleWeather :: "jsString \<Rightarrow> error + rat weatherBody" where
  "exampleWeather q =
     (if q = lit ''Paris,FR''
      then Inr \<lparr> wb_name = lit ''Paris'', wb_country = Some (lit ''FR''), wb_temp = Some (25 / 2),
                 wb_description = Some (lit ''clear sky''), wb_icon = Some (lit ''01d'') \<rparr>
      else if q = evryName @ lit '',FR''
      then Inr \<lparr> wb_name = evryName, wb_country = Some (lit ''FR''), wb_temp = Some (59 / 2),
                 wb_description = Some (lit ''sunny''), wb_icon = Some (lit ''01d'') \<rparr>
      else Inl (AxiosError (Some 404) (JString (lit ''404'')) (JString (lit ''city not found''))))"

definition exampleEnv :: "rat env" where
  "exampleEnv =
     \<lparr> OPENWEATHER_API_KEY = Some (lit ''key''), geoGet = (\<lambda>q. Inr exampleGeo), weatherGet = exampleWeather,
       GEMINI_API_KEY = None, geminiPost = (\<lambda>p. Inl (AxiosError None JUndefined JUndefined)),
       JWT_SECRET = Some (lit ''secret''), bcryptCompare = (\<lambda>pw h. h = lit ''hash:'' @ pw),
       jwtSign = (\<lambda>payload secret. payload @ lit ''.'' @ secret),
       lowerCaseOf = exampleLower, upperCaseOf = exampleUpper,
       parseFloat = exampleParseFloat, numZero = 0, numAdd = (\<lambda>x y. x + y),
       numDivLength = (\<lambda>x n. x / of_nat n), toFixed1 = exampleToFixed1 \<rparr>"

definition parisDoc :: city where
  "parisDoc = \<lparr> c_id = id1, c_userId = userA, c_name = lit ''Paris'', c_nameNormalized = lit ''paris'',
                c_country = Some (lit ''FR''), c_apiCityId = None, c_isFavorite = False,
                c_createdAt = 1000, c_updatedAt = 1000 \<rparr>"

definition parisReq :: createCityReq where
  "parisReq = \<lparr> cr_user = Some userA, cr_name = Some (lit '' paris ''), cr_country = Some (lit ''fr'') \<rparr>"

definition parisPayload :: cityInput where
  "parisPayload = \<lparr> p_userId = userA, p_name = lit ''Paris'', p_nameNormalized = lit ''paris'',
                    p_country = Some (lit ''FR'') \<rparr>"

definition evryReq :: createCityReq where
  "evryReq = \<lparr> cr_user = Some userA, cr_name = Some evryTyped, cr_country = None \<rparr>"

definition evryDoc :: city where
  "evryDoc = \<lparr> c_id = id2, c_userId = userA, c_name = evryName, c_nameNormalized = evryTyped,
               c_country = Some (lit ''FR''), c_apiCityId = None, c_isFavorite = False,
               c_createdAt = 2000, c_updatedAt = 2000 \<rparr>"

definition atlantisReq :: createCityReq where
  "atlantisReq = \<lparr> cr_user = Some userA, cr_name = Some (lit ''Atlantis''), cr_country = None \<rparr>"

definition ambiguousReq :: createCityReq where
  "ambiguousReq = \<lparr> cr_user = Some userA, cr_name = Some (lit ''PARIS''), cr_country = Some (lit ''  '') \<rparr>"

definition aliceUser :: user where
  "aliceUser = \<lparr> u_id = userA, u_name = lit ''Alice'', u_email = lit ''alice@example.com'',
                 u_passwordHash = lit ''hash:correct horse'' \<rparr>"

definition exampleSummary :: jsString where
  "exampleSummary =
     join newline
       [lit ''City: Paris (FR) | 12.5'' @ degreeC @ lit '', clear sky'',
        lit ''City: Oslo | -3.0'' @ degreeC @ lit '', snow'',
        lit ''no reading for Lima'',
        lit ''City: Cairo (EG) | 29.5'' @ degreeC @ lit '', sunny'']"

definition lyonDoc :: city where
  "lyonDoc = \<lparr> c_id = id2, c_userId = userA, c_name = lit ''Lyon'', c_nameNormalized = lit ''lyon'',
               c_country = Some (lit ''FR''), c_apiCityId = None, c_isFavorite = False,
               c_createdAt = 2000, c_updatedAt = 2000 \<rparr>"

definition noKeyEnv :: "rat env" where
  "noKeyEnv = exampleEnv \<lparr> OPENWEATHER_API_KEY := None \<rparr>"

definition flakyEnv :: "rat env" where
  "flakyEnv = exampleEnv \<lparr> weatherGet := (\<lambda>q. Inl (AxiosError (Some 500) JUndefined JUndefined)) \<rparr>"

section \<open>Properties\<close>

subsection \<open>Strings\<close>

lemma trim_nonempty: "trim s \<noteq> [] \<Longrightarrow> s \<noteq> []"
  by (auto simp: trim_def)

lemma toUpperCase_nonempty: "toUpperCase e s \<noteq> [] \<Longrightarrow> s \<noteq> []"
  by (auto simp: toUpperCase_def)

subsection \<open>The repository\<close>

lemma findOneAndUpdate_later:
  assumes "\<And>d t. q ((u d)\<lparr>c_updatedAt := t\<rparr>) = q d"
    and "\<And>d t t'. (u ((u d)\<lparr>c_updatedAt := t\<rparr>))\<lparr>c_updatedAt := t'\<rparr> = (u d)\<lparr>c_updatedAt := t'\<rparr>"
  shows "findOneAndUpdate q u t2 (snd (findOneAndUpdate q u t1 ds)) = findOneAndUpdate q u t2 ds"
  using assms by (induction ds) (auto split: prod.splits)

lemma findOneAndUpdate_fav_later:
  "findOneAndUpdate (\<lambda>d. c_id d = i \<and> c_userId d = u) (\<lambda>d. d\<lparr>c_isFavorite := b\<rparr>) t2
     (snd (findOneAndUpdate (\<lambda>d. c_id d = i \<and> c_userId d = u) (\<lambda>d. d\<lparr>c_isFavorite := b\<rparr>) t1 ds))
   = findOneAndUpdate (\<lambda>d. c_id d = i \<and> c_userId d = u) (\<lambda>d. d\<lparr>c_isFavorite := b\<rparr>) t2 ds"
  by (rule findOneAndUpdate_later) simp_all

lemma updateCityFavoriteForUser_later:
  "updateCityFavoriteForUser cityId userId v t2 (snd (updateCityFavoriteForUser cityId userId v t1 store))
     = updateCityFavoriteForUser cityId userId v t2 store"
proof (cases "ObjectId cityId")
  case (Inl e)
  then show ?thesis by (simp add: updateCityFavoriteForUser_def)
next
  case cid: (Inr i)
  show ?thesis
  proof (cases "ObjectId userId")
    case (Inl e)
    with cid show ?thesis by (simp add: updateCityFavoriteForUser_def)
  next
    case uid: (Inr u)
    let ?q = "\<lambda>d. c_id d = i \<and> c_userId d = u"
    let ?u = "\<lambda>d. d\<lparr>c_isFavorite := v\<rparr>"
    obtain r s' where first: "findOneAndUpdate ?q ?u t1 store = (r, s')"
      by (cases "findOneAndUpdate ?q ?u t1 store")
    with findOneAndUpdate_fav_later [of i u v t2 t1 store]
    have second: "findOneAndUpdate ?q ?u t2 s' = findOneAndUpdate ?q ?u t2 store"
      by simp
    from cid uid first second show ?thesis
      by (simp add: updateCityFavoriteForUser_def)
  qed
qed

text \<open>What an update leaves and returns does not depend on its time, \<open>updatedAt\<close> apart.\<close>

lemma findOneAndUpdate_any_time:
  "map (\<lambda>d. d\<lparr>c_updatedAt := 0\<rparr>) (snd (findOneAndUpdate q u t ds))
     = map (\<lambda>d. d\<lparr>c_updatedAt := 0\<rparr>) (snd (findOneAndUpdate q u t' ds))
   \<and> map_option (\<lambda>d. d\<lparr>c_updatedAt := 0\<rparr>) (fst (findOneAndUpdate q u t ds))
     = map_option (\<lambda>d. d\<lparr>c_updatedAt := 0\<rparr>) (fst (findOneAndUpdate q u t' ds))"
  by (induction ds) (auto split: prod.splits)

lemma updateCityFavoriteForUser_any_time:
  "map (\<lambda>d. d\<lparr>c_updatedAt := 0\<rparr>) (snd (updateCityFavoriteForUser cityId userId v t store))
     = map (\<lambda>d. d\<lparr>c_updatedAt := 0\<rparr>) (snd (updateCityFavoriteForUser cityId userId v t' store))
   \<and> map_sum id (map_option (\<lambda>d. d\<lparr>c_updatedAt := 0\<rparr>)) (fst (updateCityFavoriteForUser cityId userId v t store))
     = map_sum id (map_option (\<lambda>d. d\<lparr>c_updatedAt := 0\<rparr>)) (fst (updateCityFavoriteForUser cityId userId v t' store))"
proof (cases "ObjectId cityId")
  case (Inl e)
  then show ?thesis by (simp add: updateCityFavoriteForUser_def)
next
  case cid: (Inr i)
  show ?thesis
  proof (cases "ObjectId userId")
    case (Inl e)
    with cid show ?thesis by (simp add: updateCityFavoriteForUser_def)
  next
    case uid: (Inr u)
    let ?q = "\<lambda>d. c_id d = i \<and> c_userId d = u"
    let ?u = "\<lambda>d. d\<lparr>c_isFavorite := v\<rparr>"
    obtain r s1 where a: "findOneAndUpdate ?q ?u t store = (r, s1)"
      by (cases "findOneAndUpdate ?q ?u t store")
    obtain r' s2 where b: "findOneAndUpdate ?q ?u t' store = (r', s2)"
      by (cases "findOneAndUpdate ?q ?u t' store")
    from findOneAndUpdate_any_time [of ?q ?u t store t'] a b cid uid
    show ?thesis by (simp add: updateCityFavoriteForUser_def)
  qed
qed

lemma cityJson_updatedAt: "cityJson (d\<lparr>c_updatedAt := t\<rparr>) = cityJson d"
  by (simp add: cityJson_def)

text \<open>The response of \<open>toggleFavorite\<close> does not depend on the time of the request.\<close>

lemma toggleFavorite_response_any_time:
  "fst (toggleFavorite user cid v t store) = fst (toggleFavorite user cid v t' store)"
proof (cases user)
  case None
  then show ?thesis by (simp add: toggleFavorite_def)
next
  case (Some uid)
  obtain r s1 where a: "updateCityFavoriteForUser cid uid (truthy v) t store = (r, s1)"
    by (cases "updateCityFavoriteForUser cid uid (truthy v) t store")
  obtain r' s2 where b: "updateCityFavoriteForUser cid uid (truthy v) t' store = (r', s2)"
    by (cases "updateCityFavoriteForUser cid uid (truthy v) t' store")
  from updateCityFavoriteForUser_any_time [of cid uid "truthy v" t store t'] a b
  have rel: "map_sum id (map_option (\<lambda>d. d\<lparr>c_updatedAt := 0\<rparr>)) r
           = map_sum id (map_option (\<lambda>d. d\<lparr>c_updatedAt := 0\<rparr>)) r'" by simp
  have "(case r of Inl e \<Rightarrow> Response 500 (Message ''Internal server error'')
          | Inr None \<Rightarrow> Response 404 (Message ''City not found'')
          | Inr (Some d) \<Rightarrow> Response 200 (cityJson d))
      = (case r' of Inl e \<Rightarrow> Response 500 (Message ''Internal server error'')
          | Inr None \<Rightarrow> Response 404 (Message ''City not found'')
          | Inr (Some d) \<Rightarrow> Response 200 (cityJson d))"
  proof (cases r)
    case (Inl e)
    with rel show ?thesis by (cases r') simp_all
  next
    case (Inr x)
    with rel obtain x' where r': "r' = Inr x'"
      and xx: "map_option (\<lambda>d. d\<lparr>c_updatedAt := 0\<rparr>) x = map_option (\<lambda>d. d\<lparr>c_updatedAt := 0\<rparr>) x'"
      by (cases r') simp_all
    show ?thesis
    proof (cases x)
      case None
      with xx Inr r' show ?thesis by simp
    next
      case (Some d)
      with xx obtain d' where x': "x' = Some d'" and dd: "d\<lparr>c_updatedAt := 0\<rparr> = d'\<lparr>c_updatedAt := 0\<rparr>"
        by (cases x') simp_all
      from dd have "cityJson (d\<lparr>c_updatedAt := 0\<rparr>) = cityJson (d'\<lparr>c_updatedAt := 0\<rparr>)" by simp
      then have "cityJson d = cityJson d'" by (simp add: cityJson_updatedAt)
      with Some x' Inr r' show ?thesis by simp
    qed
  qed
  with Some a b show ?thesis
    by (simp add: toggleFavorite_def split: sum.splits option.splits)
qed

lemma deleteOne_subset: "set (deleteOne q s) \<subseteq> set s"
  by (induction s) auto

lemma deleteOne_distinct: "distinct (map f s) \<Longrightarrow> distinct (map f (deleteOne q s))"
proof (induction s)
  case Nil
  then show ?case by simp
next
  case (Cons d ds)
  with deleteOne_subset [of q ds] show ?case by auto
qed

lemma deleteOne_no_match: "\<forall>d\<in>set s. \<not> q d \<Longrightarrow> deleteOne q s = s"
  by (induction s) auto

lemma findOneAndUpdate_no_match: "\<forall>d\<in>set s. \<not> q d \<Longrightarrow> findOneAndUpdate q u now s = (None, s)"
  by (induction s) auto

lemma findOneAndUpdate_frame:
  assumes "\<And>d. f ((u d)\<lparr>c_updatedAt := now\<rparr>) = f d"
  shows "map f (snd (findOneAndUpdate q u now s)) = map f s"
  using assms by (induction s) (auto split: prod.splits)

lemma findOneAndUpdate_set:
  assumes "\<And>d. P d \<Longrightarrow> P ((u d)\<lparr>c_updatedAt := now\<rparr>)" and "\<forall>d\<in>set s. P d"
  shows "\<forall>d\<in>set (snd (findOneAndUpdate q u now s)). P d"
  using assms by (induction s) (auto split: prod.splits)

lemma map_if_id_fresh:
  "\<forall>x\<in>set s. c_id x \<noteq> i \<Longrightarrow> map (\<lambda>x. if c_id x = i then u x else x) s = s"
  by (induction s) auto

lemma findOneAndUpdate_by_id:
  assumes "distinct (map c_id s)" and "d \<in> set s"
  shows "findOneAndUpdate (\<lambda>x. c_id x = c_id d \<and> c_userId x = c_userId d) u now s
         = (Some ((u d)\<lparr>c_updatedAt := now\<rparr>),
            map (\<lambda>x. if c_id x = c_id d then (u x)\<lparr>c_updatedAt := now\<rparr> else x) s)"
  using assms
proof (induction s)
  case Nil
  then show ?case by simp
next
  case (Cons a s)
  show ?case
  proof (cases "a = d")
    case True
    from Cons.prems(1) True have "c_id d \<notin> c_id ` set s" by simp
    then have "\<forall>x\<in>set s. c_id x \<noteq> c_id d" by (metis imageI)
    then have "map (\<lambda>x. if c_id x = c_id d then (u x)\<lparr>c_updatedAt := now\<rparr> else x) s = s"
      by (rule map_if_id_fresh)
    with True show ?thesis by simp
  next
    case False
    with Cons.prems have d: "d \<in> set s" by simp
    with Cons.prems(1) have ne: "c_id a \<noteq> c_id d" by force
    from Cons.prems(1) have "distinct (map c_id s)" by simp
    from Cons.IH [OF this d] ne show ?thesis by simp
  qed
qed

subsection \<open>What createCity does to the collection\<close>

lemma save_Inr:
  assumes "save doc store = Inr (d, s')"
  shows "d = doc \<and> s' = store @ [doc] \<and> c_id doc \<notin> set (map c_id store)
         \<and> indexKey doc \<notin> set (map indexKey store)"
  using assms by (auto simp: save_def split: if_splits)

lemma createCityForUser_Inr:
  assumes "createCityForUser e now newId p store = Inr (d, s')"
  shows "s' = store @ [d] \<and> c_id d \<notin> set (map c_id store) \<and> indexKey d \<notin> set (map indexKey store)
         \<and> c_name d = p_name p \<and> c_nameNormalized d = toLowerCase e (p_nameNormalized p)"
proof -
  from assms obtain uid where uid: "ObjectId (p_userId p) = Inr uid"
    by (cases "ObjectId (p_userId p)") (simp_all add: createCityForUser_def)
  with assms save_Inr show ?thesis
    by (fastforce simp: createCityForUser_def)
qed

lemma validateWeather_payload:
  "validateWeather e t p calls = Inr (p', calls') \<Longrightarrow> p' = p"
  by (auto simp: validateWeather_def split: prod.splits sum.splits if_splits)

lemma validateWeather_status:
  "validateWeather e t p calls = Inl (r, calls') \<Longrightarrow> status r = 400"
  by (auto simp: validateWeather_def split: prod.splits sum.splits if_splits)

lemma planCity_payload:
  assumes "planCity e t req = Inr (p, calls)"
  shows "p_nameNormalized p = toLowerCase e (p_name p)"
  using assms
  by (auto simp: planCity_def Let_def split: option.splits if_splits prod.splits sum.splits list.splits
           dest!: validateWeather_payload)

lemma planCity_status:
  assumes "planCity e t req = Inl (r, calls)"
  shows "status r = 400 \<or> status r = 401"
  using assms
  by (auto simp: planCity_def Let_def split: option.splits if_splits prod.splits sum.splits list.splits
           dest!: validateWeather_status)

lemma createCity_cases:
  assumes "createCity e now newId req s = (r, s', calls)"
  shows "(s' = s \<and> status r \<noteq> 201) \<or>
         (\<exists>d. s' = s @ [d] \<and> r = Response 201 (cityJson d) \<and> c_id d \<notin> set (map c_id s)
              \<and> indexKey d \<notin> set (map indexKey s)
              \<and> c_nameNormalized d = toLowerCase e (toLowerCase e (c_name d)))"
proof (cases "planCity e newId req")
  case (Inl a)
  obtain r0 c0 where a: "a = (r0, c0)" by (cases a)
  with Inl planCity_status [of e newId req r0 c0] assms show ?thesis
    by (auto simp: createCity_def)
next
  case (Inr b)
  obtain p c0 where b: "b = (p, c0)" by (cases b)
  from Inr b have norm: "p_nameNormalized p = toLowerCase e (p_name p)"
    using planCity_payload by blast
  show ?thesis
  proof (cases "createCityForUser e now newId p s")
    case (Inl err)
    with Inr b assms show ?thesis by (auto simp: createCity_def persistCity_def)
  next
    case ins: (Inr ds)
    obtain d s2 where ds: "ds = (d, s2)" by (cases ds)
    from ins ds createCityForUser_Inr [of e now newId p s d s2]
    have "s2 = s @ [d]" "c_id d \<notin> set (map c_id s)" "indexKey d \<notin> set (map indexKey s)"
      "c_name d = p_name p" "c_nameNormalized d = toLowerCase e (p_nameNormalized p)"
      by simp_all
    with norm Inr b ins ds assms show ?thesis
      by (auto simp: createCity_def persistCity_def)
  qed
qed

lemma resolveExactCity_from_geocoder:
  assumes "resolveExactCity e name cc = (Inr ms, calls)"
  shows "\<exists>q raw. geoGet e q = Inr raw \<and> set ms \<subseteq> set raw"
proof -
  from assms obtain raw where raw: "resolveCity e name cc = (Inr raw, calls)"
    and ms: "ms = filter (isExactMatch e name) raw"
    by (auto simp: resolveExactCity_def split: prod.splits sum.splits)
  from raw obtain q where "geoGet e q = Inr raw"
    by (auto simp: resolveCity_def Let_def split: sum.splits)
  with ms show ?thesis by auto
qed

lemma filter_Cons_mem: "filter P xs = y # ys \<Longrightarrow> y \<in> set xs"
  by (metis filter_is_subset list.set_intros(1) subsetD)

lemma planCity_best:
  assumes "planCity e t req = Inr (p, calls)"
  shows "\<exists>nm cc ms calls0 best.
           resolveExactCity e nm cc = (Inr ms, calls0) \<and> best \<in> set ms \<and> p_name p = loc_name best"
proof -
  from assms obtain uid name where name: "cr_name req = Some name" and uid: "cr_user req = Some uid"
    by (auto simp: planCity_def split: option.splits)
  let ?cc = "normalizedCountryOf e (cr_country req)"
  from assms name uid obtain ms calls0 where r: "resolveExactCity e (trim name) ?cc = (Inr ms, calls0)"
    by (auto simp: planCity_def Let_def split: if_splits prod.splits sum.splits)
  show ?thesis
  proof (cases "truthyStr ?cc")
    case False
    with assms name uid r obtain best rest where ms: "ms = best # rest" and n: "p_name p = loc_name best"
      by (auto simp: planCity_def Let_def split: if_splits list.splits dest!: validateWeather_payload)
    from ms have "best \<in> set ms" by simp
    with r n show ?thesis by blast
  next
    case True
    with assms name uid r obtain best rest where
      f: "filter (\<lambda>m. upperCountry e m = ?cc) ms = best # rest" and n: "p_name p = loc_name best"
      by (auto simp: planCity_def Let_def split: if_splits list.splits dest!: validateWeather_payload)
    from filter_Cons_mem [OF f] have "best \<in> set ms" .
    with r n show ?thesis by blast
  qed
qed

lemma planCity_name_from_geocoder:
  assumes "planCity e t req = Inr (p, calls)"
  shows "\<exists>q raw. geoGet e q = Inr raw \<and> p_name p \<in> loc_name ` set raw"
proof -
  from planCity_best [OF assms] obtain nm cc ms calls0 best where
    r: "resolveExactCity e nm cc = (Inr ms, calls0)" and b: "best \<in> set ms" and n: "p_name p = loc_name best"
    by blast
  from resolveExactCity_from_geocoder [OF r] obtain q raw where "geoGet e q = Inr raw" "set ms \<subseteq> set raw" by blast
  with b n show ?thesis by blast
qed

lemma createCity_created:
  assumes "createCity e now newId req s = (Response 201 b, s', calls)"
  shows "\<exists>d p c0. planCity e newId req = Inr (p, c0) \<and> createCityForUser e now newId p s = Inr (d, s')
                  \<and> b = cityJson d"
proof (cases "planCity e newId req")
  case (Inl a)
  obtain r0 c0 where a: "a = (r0, c0)" by (cases a)
  with Inl planCity_status [of e newId req r0 c0] assms show ?thesis
    by (auto simp: createCity_def)
next
  case (Inr x)
  obtain p c0 where x: "x = (p, c0)" by (cases x)
  with Inr assms show ?thesis
    by (auto simp: createCity_def persistCity_def split: sum.splits)
qed

subsection \<open>The invariant of the collection\<close>

lemma storeInv_createCity:
  assumes "storeInv s"
  shows "storeInv (fst (snd (createCity e now newId req s)))"
proof -
  obtain r s' calls where c: "createCity e now newId req s = (r, s', calls)"
    by (cases "createCity e now newId req s")
  from createCity_cases [OF c] assms c show ?thesis
    by (auto simp: storeInv_def)
qed

lemma storeInv_deleteCity:
  assumes "storeInv s"
  shows "storeInv (snd (deleteCity user cid s))"
proof -
  have "storeInv (deleteOne q s)" for q
    using assms by (auto simp: storeInv_def deleteOne_distinct)
  then show ?thesis using assms
    by (auto simp: deleteCity_def deleteCityForUser_def split: option.splits sum.splits)
qed

lemma storeInv_update:
  assumes "storeInv s"
  shows "storeInv (snd (findOneAndUpdate q (\<lambda>d. d\<lparr>c_isFavorite := b\<rparr>) now s))"
proof -
  let ?u = "\<lambda>d. d\<lparr>c_isFavorite := b\<rparr>"
  have "map c_id (snd (findOneAndUpdate q ?u now s)) = map c_id s"
    by (rule findOneAndUpdate_frame) simp
  moreover have "map indexKey (snd (findOneAndUpdate q ?u now s)) = map indexKey s"
    by (rule findOneAndUpdate_frame) (simp add: indexKey_def)
  ultimately show ?thesis using assms by (simp add: storeInv_def)
qed

lemma storeInv_toggleFavorite:
  assumes "storeInv s"
  shows "storeInv (snd (toggleFavorite user cid v now s))"
proof (cases user)
  case None
  with assms show ?thesis by (simp add: toggleFavorite_def)
next
  case (Some uid)
  have "storeInv (snd (updateCityFavoriteForUser cid uid (truthy v) now s))"
  proof (cases "ObjectId cid")
    case (Inl err)
    with assms show ?thesis by (simp add: updateCityFavoriteForUser_def)
  next
    case c: (Inr i)
    show ?thesis
    proof (cases "ObjectId uid")
      case (Inl err)
      with c assms show ?thesis by (simp add: updateCityFavoriteForUser_def)
    next
      case (Inr u)
      with c storeInv_update [OF assms, of "\<lambda>d. c_id d = i \<and> c_userId d = u" "truthy v" now]
      show ?thesis by (auto simp: updateCityFavoriteForUser_def split: prod.splits)
    qed
  qed
  with Some show ?thesis
    by (auto simp: toggleFavorite_def split: prod.splits sum.splits option.splits)
qed

lemma reachable_storeInv: "reachable E s \<Longrightarrow> storeInv s"
proof (induction rule: reachable.induct)
  case init
  show ?case by (simp add: storeInv_def)
next
  case (created s e now newId req)
  then show ?case by (simp add: storeInv_createCity)
next
  case (deleted s user cid)
  then show ?case by (simp add: storeInv_deleteCity)
next
  case (toggled s user cid v now)
  then show ?case by (simp add: storeInv_toggleFavorite)
qed

text \<open>
  When every environment of \<open>E\<close> lowercases as \<open>lo\<close> does, the \<open>nameNormalized\<close> of a
  document is its \<open>name\<close> lowercased twice: once by the controller, once by the schema.
\<close>

lemma reachable_nameNormalized:
  assumes "reachable E s" and "\<forall>e\<in>E. toLowerCase e = lo"
  shows "\<forall>d\<in>set s. c_nameNormalized d = lo (lo (c_name d))"
  using assms
proof (induction rule: reachable.induct)
  case init
  show ?case by simp
next
  case (created s e now newId req)
  obtain r s' calls where c: "createCity e now newId req s = (r, s', calls)"
    by (cases "createCity e now newId req s")
  from created have lo: "toLowerCase e = lo" by simp
  from createCity_cases [OF c] created c lo show ?case by auto
next
  case (deleted s user cid)
  have "set (deleteOne q s) \<subseteq> set s" for q by (rule deleteOne_subset)
  with deleted show ?case
    by (auto simp: deleteCity_def deleteCityForUser_def split: option.splits sum.splits)
next
  case (toggled s user cid v now)
  have upd: "\<forall>d\<in>set (snd (findOneAndUpdate q (\<lambda>d. d\<lparr>c_isFavorite := b\<rparr>) now s)).
              c_nameNormalized d = lo (lo (c_name d))" for q b
    by (rule findOneAndUpdate_set) (use toggled in auto)
  show ?case
  proof (cases user)
    case None
    with toggled show ?thesis by (simp add: toggleFavorite_def)
  next
    case (Some uid)
    show ?thesis
    proof (cases "ObjectId cid")
      case (Inl err)
      with Some toggled show ?thesis by (simp add: toggleFavorite_def updateCityFavoriteForUser_def)
    next
      case c: (Inr i)
      show ?thesis
      proof (cases "ObjectId uid")
        case (Inl err)
        with c Some toggled show ?thesis by (simp add: toggleFavorite_def updateCityFavoriteForUser_def)
      next
        case (Inr u)
        obtain r s' where f: "findOneAndUpdate (\<lambda>d. c_id d = i \<and> c_userId d = u)
                                (\<lambda>d. d\<lparr>c_isFavorite := truthy v\<rparr>) now s = (r, s')"
          by (cases "findOneAndUpdate (\<lambda>d. c_id d = i \<and> c_userId d = u)
                                (\<lambda>d. d\<lparr>c_isFavorite := truthy v\<rparr>) now s")
        with upd [of "\<lambda>d. c_id d = i \<and> c_userId d = u" "truthy v"]
        have "\<forall>d\<in>set s'. c_nameNormalized d = lo (lo (c_name d))" by simp
        with Some c Inr f show ?thesis
          by (simp add: toggleFavorite_def updateCityFavoriteForUser_def split: option.splits)
      qed
    qed
  qed
qed

subsection \<open>Repeating the favorite update\<close>

text \<open>
  C4, as the code has it.  The schema of the City collection has \<open>timestamps: true\<close>, so
  every favorite update that finds its document also moves the document's \<open>updatedAt\<close>
  to the time of the call.  A second call of \<open>updateCityFavoriteForUser\<close> with the same
  city id, user id and value, at the time \<open>t2\<close>, after a first call at the time \<open>t1\<close>:

  \<^item> returns and leaves what a single call at \<open>t2\<close> would have returned and left;

  \<^item> leaves the collection as the first call left it in every field of every document
    but \<open>updatedAt\<close>;

  \<^item> and the response of the handler \<open>toggleFavorite\<close> to the second request (the id,
    name, country and \<open>isFavorite\<close> of the city, or 404, or 500) is its response to the
    first.

  It holds for every argument, also where the ids are no object ids (both calls throw)
  and where no document matches (both calls return null).
\<close>

theorem favorite_update_repeated:
  "updateCityFavoriteForUser cityId userId v t2 (snd (updateCityFavoriteForUser cityId userId v t1 store))
     = updateCityFavoriteForUser cityId userId v t2 store
   \<and> map (\<lambda>d. d\<lparr>c_updatedAt := 0\<rparr>)
         (snd (updateCityFavoriteForUser cityId userId v t2 (snd (updateCityFavoriteForUser cityId userId v t1 store))))
     = map (\<lambda>d. d\<lparr>c_updatedAt := 0\<rparr>) (snd (updateCityFavoriteForUser cityId userId v t1 store))
   \<and> fst (toggleFavorite user cityId b t2 (snd (toggleFavorite user cityId b t1 store)))
     = fst (toggleFavorite user cityId b t1 store)"
proof (intro conjI)
  show later: "updateCityFavoriteForUser cityId userId v t2 (snd (updateCityFavoriteForUser cityId userId v t1 store))
     = updateCityFavoriteForUser cityId userId v t2 store"
    by (rule updateCityFavoriteForUser_later)
  show "map (\<lambda>d. d\<lparr>c_updatedAt := 0\<rparr>)
         (snd (updateCityFavoriteForUser cityId userId v t2 (snd (updateCityFavoriteForUser cityId userId v t1 store))))
     = map (\<lambda>d. d\<lparr>c_updatedAt := 0\<rparr>) (snd (updateCityFavoriteForUser cityId userId v t1 store))"
    using updateCityFavoriteForUser_any_time [of cityId userId v t2 store t1]
    by (simp add: later)
  show "fst (toggleFavorite user cityId b t2 (snd (toggleFavorite user cityId b t1 store)))
     = fst (toggleFavorite user cityId b t1 store)"
  proof (cases user)
    case None
    then show ?thesis by (simp add: toggleFavorite_def)
  next
    case (Some uid)
    have store1: "snd (toggleFavorite user cityId b t1 store)
                  = snd (updateCityFavoriteForUser cityId uid (truthy b) t1 store)"
      using Some by (simp add: toggleFavorite_def split: prod.splits sum.splits option.splits)
    have "toggleFavorite user cityId b t2 (snd (updateCityFavoriteForUser cityId uid (truthy b) t1 store))
          = toggleFavorite user cityId b t2 store"
      using Some updateCityFavoriteForUser_later [of cityId uid "truthy b" t2 t1 store]
      by (simp add: toggleFavorite_def)
    with store1 have "fst (toggleFavorite user cityId b t2 (snd (toggleFavorite user cityId b t1 store)))
          = fst (toggleFavorite user cityId b t2 store)" by simp
    also have "\<dots> = fst (toggleFavorite user cityId b t1 store)"
      by (rule toggleFavorite_response_any_time)
    finally show ?thesis .
  qed
qed

text \<open>
  The theorem at the collection that holds Paris, with calls at the times 2000 and 3000.
\<close>

theorem favorite_update_repeated_witness:
  "updateCityFavoriteForUser id1 userA True 3000 (snd (updateCityFavoriteForUser id1 userA True 2000 [parisDoc]))
     = (Inr (Some (parisDoc\<lparr>c_isFavorite := True, c_updatedAt := 3000\<rparr>)),
        [parisDoc\<lparr>c_isFavorite := True, c_updatedAt := 3000\<rparr>])
   \<and> snd (updateCityFavoriteForUser id1 userA True 2000 [parisDoc])
     = [parisDoc\<lparr>c_isFavorite := True, c_updatedAt := 2000\<rparr>]
   \<and> fst (toggleFavorite (Some userA) id1 (JBool True) 3000 (snd (toggleFavorite (Some userA) id1 (JBool True) 2000 [parisDoc])))
     = Response 200 (cityJson (parisDoc\<lparr>c_isFavorite := True\<rparr>))"
proof -
  have once: "updateCityFavoriteForUser id1 userA True 3000 [parisDoc]
     = (Inr (Some (parisDoc\<lparr>c_isFavorite := True, c_updatedAt := 3000\<rparr>)),
        [parisDoc\<lparr>c_isFavorite := True, c_updatedAt := 3000\<rparr>])"
    by code_simp
  have first: "snd (updateCityFavoriteForUser id1 userA True 2000 [parisDoc])
     = [parisDoc\<lparr>c_isFavorite := True, c_updatedAt := 2000\<rparr>]"
    by code_simp
  have resp: "fst (toggleFavorite (Some userA) id1 (JBool True) 2000 [parisDoc])
     = Response 200 (cityJson (parisDoc\<lparr>c_isFavorite := True\<rparr>))"
    by code_simp
  from favorite_update_repeated [of id1 userA True 3000 2000 "[parisDoc]" "Some userA" "JBool True"]
    once first resp
  show ?thesis by simp
qed

text \<open>
  The claim as the specification states it fails: after a second call one second later,
  the collection is not the collection the first call left (\<open>updatedAt\<close> has moved from
  2000 to 3000).
\<close>

theorem favorite_update_moves_updatedAt_counterexample:
  "snd (updateCityFavoriteForUser id1 userA True 3000 (snd (updateCityFavoriteForUser id1 userA True 2000 [parisDoc])))
     \<noteq> snd (updateCityFavoriteForUser id1 userA True 2000 [parisDoc])"
  by code_simp

subsection \<open>Uniqueness of (owner, normalized name, country)\<close>

lemma persistCity_duplicate:
  assumes "ObjectId (p_userId payload) = Inr uid"
    and "(uid, toLowerCase e (p_nameNormalized payload), p_country payload) \<in> set (map indexKey store)"
  shows "persistCity e now newId payload store calls
         = (Response 400 (Message ''City already exists in your list''), store, calls)"
proof -
  let ?doc = "\<lparr> c_id = newId, c_userId = uid, c_name = p_name payload,
                 c_nameNormalized = toLowerCase e (p_nameNormalized payload),
                 c_country = p_country payload, c_apiCityId = None, c_isFavorite = False,
                 c_createdAt = now, c_updatedAt = now \<rparr>"
  from assms(2) have "indexKey ?doc \<in> set (map indexKey store)"
    by (simp add: indexKey_def)
  then have "\<exists>err. save ?doc store = Inl err"
    by (simp add: save_def)
  with assms(1) show ?thesis
    by (auto simp: persistCity_def createCityForUser_def)
qed

text \<open>
  Two requests of user A in the example environment: " paris " in "fr" is stored as
  Paris (FR), and the name of \<open>\<Eacute>vry\<close> typed in small letters is stored under the
  geocoder's name, with the typed name as its normalized name.
\<close>

lemma example_created:
  "createCity exampleEnv 1000 id1 parisReq [] =
     (Response 201 (cityJson parisDoc), [parisDoc],
      [GeoCall (lit ''paris,FR''), WeatherCall (lit ''Paris,FR'')])"
  by code_simp

lemma example_created_evry:
  "createCity exampleEnv 2000 id2 evryReq [parisDoc] =
     (Response 201 (cityJson evryDoc), [parisDoc, evryDoc],
      [GeoCall evryTyped, WeatherCall (evryName @ lit '',FR'')])"
  by code_simp

lemma example_reachable: "reachable {exampleEnv} [parisDoc]"
  using reachable.created [OF reachable.init, of exampleEnv "{exampleEnv}" 1000 id1 parisReq]
  by (simp add: example_created)

lemma example_reachable_evry: "reachable {exampleEnv} [parisDoc, evryDoc]"
  using reachable.created [OF example_reachable, of exampleEnv 2000 id2 evryReq]
  by (simp add: example_created_evry)

text \<open>
  C1.  In every collection the handlers can produce, no two documents have the same key
  (owner, normalized name, country) of the unique index.  And a \<open>createCity\<close> request
  that gets as far as the insert (\<open>planCity\<close> ends with a payload) with a payload whose
  key is the key of a stored document is answered 400 "City already exists in your list",
  and the collection is left as it was.
\<close>

theorem city_unique_index:
  assumes "reachable E store"
  shows "distinct (map indexKey store) \<and>
         (planCity e newId req = Inr (payload, calls) \<and> ObjectId (p_userId payload) = Inr uid \<and>
          (uid, toLowerCase e (p_nameNormalized payload), p_country payload) \<in> set (map indexKey store)
          \<longrightarrow> createCity e now newId req store
               = (Response 400 (Message ''City already exists in your list''), store, calls))"
proof
  from assms show "distinct (map indexKey store)"
    using reachable_storeInv by (auto simp: storeInv_def)
next
  show "planCity e newId req = Inr (payload, calls) \<and> ObjectId (p_userId payload) = Inr uid \<and>
          (uid, toLowerCase e (p_nameNormalized payload), p_country payload) \<in> set (map indexKey store)
          \<longrightarrow> createCity e now newId req store
               = (Response 400 (Message ''City already exists in your list''), store, calls)"
    by (auto simp: createCity_def persistCity_duplicate)
qed

text \<open>
  The theorem at the collection that holds Paris (FR) and \<open>\<Eacute>vry\<close> (FR) of user A, and
  a second request of user A for \<open>\<Eacute>vry\<close>, typed in small letters.
\<close>

theorem city_unique_index_witness:
  "distinct (map indexKey [parisDoc, evryDoc]) \<and>
   createCity exampleEnv 3000 (lit ''333333333333333333333333'') evryReq [parisDoc, evryDoc]
     = (Response 400 (Message ''City already exists in your list''), [parisDoc, evryDoc],
        [GeoCall evryTyped, WeatherCall (evryName @ lit '',FR'')])"
proof -
  let ?payload = "\<lparr> p_userId = userA, p_name = evryName, p_nameNormalized = evryTyped,
                     p_country = Some (lit ''FR'') \<rparr>"
  have plan: "planCity exampleEnv (lit ''333333333333333333333333'') evryReq
              = Inr (?payload, [GeoCall evryTyped, WeatherCall (evryName @ lit '',FR'')])"
    by code_simp
  have oid: "ObjectId (p_userId ?payload) = Inr userA"
    by code_simp
  have key: "(userA, toLowerCase exampleEnv (p_nameNormalized ?payload), p_country ?payload)
             \<in> set (map indexKey [parisDoc, evryDoc])"
    by code_simp
  from city_unique_index [OF example_reachable_evry, of exampleEnv "lit ''333333333333333333333333''"
      evryReq ?payload "[GeoCall evryTyped, WeatherCall (evryName @ lit '',FR'')]" userA 3000] plan oid key
  show ?thesis by simp
qed

subsection \<open>The normalized name\<close>

lemma exampleLowerUnit_idem: "exampleLowerUnit (exampleLowerUnit n) = exampleLowerUnit n"
  unfolding exampleLowerUnit_def by (simp; unat_arith)

lemma toLowerCase_exampleEnv: "toLowerCase exampleEnv s = exampleLower s"
  by (simp add: toLowerCase_def exampleEnv_def exampleLower_def)

lemma exampleLower_idem: "exampleLower (exampleLower s) = exampleLower s"
  by (simp add: exampleLower_def exampleLowerUnit_idem)

text \<open>
  C9, as the code has it.  The controller lowercases the geocoder's name and the schema
  lowercases it once more when the document is built; lowercasing a string twice gives
  what lowercasing it once gives (the hypothesis on \<open>lo\<close>, the \<open>toLowerCase\<close> of every
  environment of \<open>E\<close>).  Then, in every collection the handlers can produce, the
  \<open>nameNormalized\<close> of a document is the lowercased \<open>name\<close>, and it is the second
  component of the document's key in the unique index.  A city that \<open>createCity\<close>
  answers 201 for is appended as such a document, and its \<open>name\<close> is the name of one of
  the geocoder's results.  The favorite update changes no field but \<open>isFavorite\<close> and
  \<open>updatedAt\<close>: with these two fields masked, the collection after the update is the
  collection before it.
\<close>

theorem nameNormalized_is_lowercased_name:
  assumes "reachable E store" and "\<forall>e\<in>E. toLowerCase e = lo" and "\<forall>s. lo (lo s) = lo s"
  shows "(\<forall>d\<in>set store. c_nameNormalized d = lo (c_name d)
                        \<and> indexKey d = (c_userId d, lo (c_name d), c_country d))
         \<and> (e \<in> E \<and> createCity e now newId req store = (Response 201 b, store', calls)
              \<longrightarrow> (\<exists>d. store' = store @ [d] \<and> b = cityJson d
                       \<and> c_nameNormalized d = lo (c_name d)
                       \<and> (\<exists>q raw. geoGet e q = Inr raw \<and> c_name d \<in> loc_name ` set raw)))
         \<and> map (\<lambda>d. d\<lparr>c_isFavorite := False, c_updatedAt := 0\<rparr>) (snd (updateCityFavoriteForUser cid uid v t store))
             = map (\<lambda>d. d\<lparr>c_isFavorite := False, c_updatedAt := 0\<rparr>) store"
proof (intro conjI)
  from reachable_nameNormalized [OF assms(1,2)] assms(3)
  show "\<forall>d\<in>set store. c_nameNormalized d = lo (c_name d)
                        \<and> indexKey d = (c_userId d, lo (c_name d), c_country d)"
    by (simp add: indexKey_def)
next
  show "e \<in> E \<and> createCity e now newId req store = (Response 201 b, store', calls)
              \<longrightarrow> (\<exists>d. store' = store @ [d] \<and> b = cityJson d
                       \<and> c_nameNormalized d = lo (c_name d)
                       \<and> (\<exists>q raw. geoGet e q = Inr raw \<and> c_name d \<in> loc_name ` set raw))"
  proof
    assume a: "e \<in> E \<and> createCity e now newId req store = (Response 201 b, store', calls)"
    then have c: "createCity e now newId req store = (Response 201 b, store', calls)" by simp
    from a assms(2) have lo: "toLowerCase e = lo" by simp
    from createCity_created [OF c] obtain d p c0 where
      pl: "planCity e newId req = Inr (p, c0)" and ins: "createCityForUser e now newId p store = Inr (d, store')"
      and b: "b = cityJson d" by blast
    from createCityForUser_Inr [OF ins]
    have s: "store' = store @ [d]" and n: "c_name d = p_name p"
      and nn: "c_nameNormalized d = toLowerCase e (p_nameNormalized p)" by simp_all
    from planCity_payload [OF pl] nn n lo assms(3) have low: "c_nameNormalized d = lo (c_name d)"
      by simp
    from planCity_name_from_geocoder [OF pl] n
    have geo: "\<exists>q raw. geoGet e q = Inr raw \<and> c_name d \<in> loc_name ` set raw" by simp
    from s b low geo
    show "\<exists>d. store' = store @ [d] \<and> b = cityJson d
                       \<and> c_nameNormalized d = lo (c_name d)
                       \<and> (\<exists>q raw. geoGet e q = Inr raw \<and> c_name d \<in> loc_name ` set raw)"
      by blast
  qed
next
  have frame: "map (\<lambda>d. d\<lparr>c_isFavorite := False, c_updatedAt := 0\<rparr>)
                 (snd (findOneAndUpdate q (\<lambda>d. d\<lparr>c_isFavorite := v\<rparr>) t store))
        = map (\<lambda>d. d\<lparr>c_isFavorite := False, c_updatedAt := 0\<rparr>) store" for q
    by (rule findOneAndUpdate_frame) simp
  show "map (\<lambda>d. d\<lparr>c_isFavorite := False, c_updatedAt := 0\<rparr>) (snd (updateCityFavoriteForUser cid uid v t store))
             = map (\<lambda>d. d\<lparr>c_isFavorite := False, c_updatedAt := 0\<rparr>) store"
  proof (cases "ObjectId cid")
    case (Inl err)
    then show ?thesis by (simp add: updateCityFavoriteForUser_def)
  next
    case c: (Inr i)
    show ?thesis
    proof (cases "ObjectId uid")
      case (Inl err)
      with c show ?thesis by (simp add: updateCityFavoriteForUser_def)
    next
      case (Inr u)
      with c frame [of "\<lambda>d. c_id d = i \<and> c_userId d = u"] show ?thesis
        by (auto simp: updateCityFavoriteForUser_def split: prod.splits)
    qed
  qed
qed

text \<open>
  The theorem at the collection that holds Paris (FR), in the example environment, and
  the request for \<open>\<Eacute>vry\<close> typed in small letters: the document is stored under the name
  the geocoder gave (with U+00C9), and its normalized name begins with U+00E9.
\<close>

theorem nameNormalized_is_lowercased_name_witness:
  "c_nameNormalized parisDoc = toLowerCase exampleEnv (c_name parisDoc)
   \<and> indexKey parisDoc = (userA, lit ''paris'', Some (lit ''FR''))
   \<and> createCity exampleEnv 2000 id2 evryReq [parisDoc]
       = (Response 201 (cityJson evryDoc), [parisDoc, evryDoc], [GeoCall evryTyped, WeatherCall (evryName @ lit '',FR'')])
   \<and> c_name evryDoc = 201 # lit ''vry''
   \<and> c_nameNormalized evryDoc = 233 # lit ''vry''
   \<and> c_nameNormalized evryDoc = toLowerCase exampleEnv (c_name evryDoc)"
proof -
  have mem: "parisDoc \<in> set [parisDoc]" by simp
  have E: "\<forall>e\<in>{exampleEnv}. toLowerCase e = toLowerCase exampleEnv" by simp
  have idem: "\<forall>s. toLowerCase exampleEnv (toLowerCase exampleEnv s) = toLowerCase exampleEnv s"
    by (simp add: toLowerCase_exampleEnv exampleLower_idem)
  have key: "(c_userId parisDoc, toLowerCase exampleEnv (c_name parisDoc), c_country parisDoc)
             = (userA, lit ''paris'', Some (lit ''FR''))"
    by code_simp
  have names: "c_name evryDoc = 201 # lit ''vry'' \<and> c_nameNormalized evryDoc = 233 # lit ''vry''"
    by code_simp
  have low: "c_nameNormalized evryDoc = toLowerCase exampleEnv (c_name evryDoc)"
    by code_simp
  from nameNormalized_is_lowercased_name [OF example_reachable E idem,
      of exampleEnv 2000 id2 evryReq "cityJson evryDoc" "[parisDoc, evryDoc]"
         "[GeoCall evryTyped, WeatherCall (evryName @ lit '',FR'')]"]
    mem key example_created_evry names low
  show ?thesis by simp
qed

text \<open>
  The claim as the specification states it fails in its last part: the favorite update
  of Paris at the time 3000 changes a field that is not \<open>isFavorite\<close> (with \<open>isFavorite\<close>
  masked, the collection after the update is not the collection before it, because
  \<open>updatedAt\<close> has moved from 1000 to 3000).
\<close>

theorem favorite_update_touches_updatedAt_counterexample:
  "map (\<lambda>d. d\<lparr>c_isFavorite := False\<rparr>) (snd (updateCityFavoriteForUser id1 userA True 3000 [parisDoc]))
     \<noteq> map (\<lambda>d. d\<lparr>c_isFavorite := False\<rparr>) [parisDoc]"
  by code_simp

subsection \<open>Requests of a user who does not own the city\<close>

lemma no_match_for_other_user:
  assumes "distinct (map c_id store)" and "d \<in> set store" and "b \<noteq> c_userId d"
  shows "\<forall>x\<in>set store. \<not> (c_id x = c_id d \<and> c_userId x = b)"
proof
  fix x assume x: "x \<in> set store"
  show "\<not> (c_id x = c_id d \<and> c_userId x = b)"
  proof
    assume m: "c_id x = c_id d \<and> c_userId x = b"
    from assms(1) have "inj_on c_id (set store)" by (simp add: distinct_map)
    with x assms(2) m have "x = d" by (auto dest: inj_onD)
    with m assms(3) show False by simp
  qed
qed

text \<open>
  C5, as the code has it.  Let a city be stored in a collection whose \<open>_id\<close>s are
  distinct (as they are in every collection the handlers produce), and let an
  authenticated user other than its owner name it.  Then \<open>deleteCity\<close> removes nothing and answers 204 with no
  body (the handler does not look at what \<open>deleteCityForUser\<close> deleted, so it answers
  as it does for a city that was deleted), and \<open>toggleFavorite\<close> changes nothing and
  answers 404 "City not found".
\<close>

theorem non_owner_delete_and_favorite:
  assumes "distinct (map c_id store)" and "d \<in> set store"
    and "ObjectId cid = Inr (c_id d)" and "ObjectId other = Inr b" and "b \<noteq> c_userId d"
  shows "deleteCity (Some other) cid store = (Response 204 NoBody, store)
         \<and> toggleFavorite (Some other) cid v t store = (Response 404 (Message ''City not found''), store)"
proof -
  from no_match_for_other_user [OF assms(1,2,5)]
  have none: "\<forall>x\<in>set store. \<not> (c_id x = c_id d \<and> c_userId x = b)" .
  from deleteOne_no_match [OF none]
  have del: "deleteOne (\<lambda>x. c_id x = c_id d \<and> c_userId x = b) store = store" .
  from findOneAndUpdate_no_match [OF none]
  have upd: "findOneAndUpdate (\<lambda>x. c_id x = c_id d \<and> c_userId x = b) u t store = (None, store)" for u .
  from assms(3,4) del have "deleteCity (Some other) cid store = (Response 204 NoBody, store)"
    by (simp add: deleteCity_def deleteCityForUser_def)
  moreover from assms(3,4) upd
  have "toggleFavorite (Some other) cid v t store = (Response 404 (Message ''City not found''), store)"
    by (simp add: toggleFavorite_def updateCityFavoriteForUser_def)
  ultimately show ?thesis by simp
qed

theorem non_owner_delete_and_favorite_witness:
  "deleteCity (Some userB) id1 [parisDoc] = (Response 204 NoBody, [parisDoc])
   \<and> toggleFavorite (Some userB) id1 (JBool True) 3000 [parisDoc] = (Response 404 (Message ''City not found''), [parisDoc])"
proof -
  have h1: "distinct (map c_id [parisDoc])" by simp
  have h2: "parisDoc \<in> set [parisDoc]" by simp
  have h3: "ObjectId id1 = Inr (c_id parisDoc)" by code_simp
  have h4: "ObjectId userB = Inr userB" by code_simp
  have h5: "userB \<noteq> c_userId parisDoc" by code_simp
  from non_owner_delete_and_favorite [OF h1 h2 h3 h4 h5, of "JBool True" 3000] show ?thesis .
qed

text \<open>
  The claim that the delete of a city of another user is answered 404 fails: user B's
  delete of user A's Paris is answered 204.
\<close>

theorem delete_by_non_owner_counterexample:
  "status (fst (deleteCity (Some userB) id1 [parisDoc])) = 204
   \<and> snd (deleteCity (Some userB) id1 [parisDoc]) = [parisDoc]
   \<and> c_userId parisDoc = userA \<and> ObjectId userA = Inr userA \<and> ObjectId userB = Inr userB \<and> userB \<noteq> userA"
  by code_simp

subsection \<open>The favorite flag is set, not toggled\<close>

text \<open>
  C10.  In a collection whose \<open>_id\<close>s are distinct (as they are in every collection
  the handlers produce), a favorite request of the owner for a stored city sets \<open>isFavorite\<close> of that
  document to \<open>!!v\<close>, where \<open>v\<close> is the field \<open>isFavorite\<close> of the request body (and its
  \<open>updatedAt\<close> to the time of the request), leaves
  every other document as it is, and answers 200 with the updated city.  The value the
  flag had plays no part; a field that is missing, null, false, 0 or the empty string
  gives false.
\<close>

theorem favorite_is_set_to_coercion:
  assumes "distinct (map c_id store)" and "d \<in> set store"
    and "ObjectId cid = Inr (c_id d)" and "ObjectId uid = Inr (c_userId d)"
  shows "toggleFavorite (Some uid) cid v t store
         = (Response 200 (cityJson (d\<lparr>c_isFavorite := truthy v\<rparr>)),
            map (\<lambda>x. if c_id x = c_id d then x\<lparr>c_isFavorite := truthy v, c_updatedAt := t\<rparr> else x) store)
         \<and> truthy JUndefined = False \<and> truthy JNull = False \<and> truthy (JBool False) = False
         \<and> truthy (JNumber 0) = False \<and> truthy (JString []) = False"
proof -
  from findOneAndUpdate_by_id [OF assms(1,2)] assms(3,4) show ?thesis
    by (simp add: toggleFavorite_def updateCityFavoriteForUser_def cityJson_def)
qed

theorem favorite_is_set_to_coercion_witness:
  "toggleFavorite (Some userA) id1 JUndefined 3000 [parisDoc\<lparr>c_isFavorite := True\<rparr>]
     = (Response 200 (CityJson id1 (lit ''Paris'') (Some (lit ''FR'')) False), [parisDoc\<lparr>c_updatedAt := 3000\<rparr>])
   \<and> toggleFavorite (Some userA) id1 (JString (lit ''no'')) 3000 [parisDoc]
     = (Response 200 (CityJson id1 (lit ''Paris'') (Some (lit ''FR'')) True),
        [parisDoc\<lparr>c_isFavorite := True, c_updatedAt := 3000\<rparr>])"
proof -
  have h3: "ObjectId id1 = Inr (c_id parisDoc)" by code_simp
  have h4: "ObjectId userA = Inr (c_userId parisDoc)" by code_simp
  have t: "truthy (JString (lit ''no''))" by code_simp
  have a: "toggleFavorite (Some userA) id1 JUndefined 3000 [parisDoc\<lparr>c_isFavorite := True\<rparr>]
     = (Response 200 (CityJson id1 (lit ''Paris'') (Some (lit ''FR'')) False), [parisDoc\<lparr>c_updatedAt := 3000\<rparr>])"
    using favorite_is_set_to_coercion [of "[parisDoc\<lparr>c_isFavorite := True\<rparr>]" "parisDoc\<lparr>c_isFavorite := True\<rparr>" id1 userA JUndefined 3000]
      h3 h4
    by (simp add: cityJson_def parisDoc_def)
  have b: "toggleFavorite (Some userA) id1 (JString (lit ''no'')) 3000 [parisDoc]
     = (Response 200 (CityJson id1 (lit ''Paris'') (Some (lit ''FR'')) True),
        [parisDoc\<lparr>c_isFavorite := True, c_updatedAt := 3000\<rparr>])"
    using favorite_is_set_to_coercion [of "[parisDoc]" parisDoc id1 userA "JString (lit ''no'')" 3000] h3 h4 t
    by (simp add: cityJson_def parisDoc_def)
  from a b show ?thesis by simp
qed

subsection \<open>Malformed country codes\<close>

text \<open>
  C3.  The handler is mounted behind \<open>authMiddleware\<close>, so a request that it receives
  has \<open>req.user\<close> set.  If the country of the body of such a request, trimmed and
  uppercased, is non-empty and is not two ASCII letters, then \<open>createCity\<close> answers 400
  with a fixed message, makes no external call and leaves the collection as it was.  The
  message is "City name is required" when the name is missing or blank (that check comes
  first), and "Country code must be a valid 2-letter ISO code" otherwise.
\<close>

theorem malformed_country_rejected:
  assumes "cr_user req = Some uid" and "cr_country req = Some c"
    and "toUpperCase e (trim c) \<noteq> []" and "\<not> isTwoLetterCode (toUpperCase e (trim c))"
  shows "createCity e now newId req store
         = (Response 400
              (Message (case cr_name req of
                          None \<Rightarrow> ''City name is required''
                        | Some name \<Rightarrow>
                            if trim name = [] then ''City name is required''
                            else ''Country code must be a valid 2-letter ISO code'')),
            store, [])
         \<and> status (fst (createCity e now newId req store)) = 400"
proof -
  from assms(3) have t: "trim c \<noteq> []" by (rule toUpperCase_nonempty)
  then have "c \<noteq> []" by (rule trim_nonempty)
  with t assms(2) have nc: "normalizedCountryOf e (cr_country req) = Some (toUpperCase e (trim c))"
    by (simp add: normalizedCountryOf_def)
  have blank: "trim name = [] \<longleftrightarrow> name = [] \<or> trim name = []" for name :: jsString
    using trim_nonempty [of name] by auto
  show ?thesis
  proof (cases "cr_name req")
    case None
    with assms(1) have "planCity e newId req = Inl (Response 400 (Message ''City name is required''), [])"
      by (simp add: planCity_def)
    with None show ?thesis by (simp add: createCity_def)
  next
    case (Some name)
    show ?thesis
    proof (cases "trim name = []")
      case True
      with Some assms(1) have "planCity e newId req = Inl (Response 400 (Message ''City name is required''), [])"
        by (simp add: planCity_def)
      with Some True show ?thesis by (simp add: createCity_def)
    next
      case False
      then have "name \<noteq> []" by (rule trim_nonempty)
      with False Some assms(1,3,4) nc
      have "planCity e newId req
            = Inl (Response 400 (Message ''Country code must be a valid 2-letter ISO code''), [])"
        by (simp add: planCity_def Let_def)
      with Some False show ?thesis by (simp add: createCity_def)
    qed
  qed
qed

text \<open>
  The theorem at a request of user A for Paris in " fra ", and at one with the same
  country and a blank name.
\<close>

theorem malformed_country_rejected_witness:
  "createCity exampleEnv 3000 id2 \<lparr> cr_user = Some userA, cr_name = Some (lit ''Paris''), cr_country = Some (lit '' fra '') \<rparr> [parisDoc]
     = (Response 400 (Message ''Country code must be a valid 2-letter ISO code''), [parisDoc], [])
   \<and> createCity exampleEnv 3000 id2 \<lparr> cr_user = Some userA, cr_name = Some (lit ''  ''), cr_country = Some (lit '' fra '') \<rparr> [parisDoc]
     = (Response 400 (Message ''City name is required''), [parisDoc], [])"
proof -
  let ?req = "\<lparr> cr_user = Some userA, cr_name = Some (lit ''Paris''), cr_country = Some (lit '' fra '') \<rparr>"
  let ?req2 = "\<lparr> cr_user = Some userA, cr_name = Some (lit ''  ''), cr_country = Some (lit '' fra '') \<rparr>"
  have h3: "toUpperCase exampleEnv (trim (lit '' fra '')) \<noteq> []" by code_simp
  have h4: "\<not> isTwoLetterCode (toUpperCase exampleEnv (trim (lit '' fra '')))" by code_simp
  have n1: "trim (lit ''Paris'') \<noteq> []" by code_simp
  have n2: "trim (lit ''  '') = []" by code_simp
  from malformed_country_rejected [of ?req userA "lit '' fra ''" exampleEnv 3000 id2 "[parisDoc]"] h3 h4 n1
  have a: "createCity exampleEnv 3000 id2 ?req [parisDoc]
     = (Response 400 (Message ''Country code must be a valid 2-letter ISO code''), [parisDoc], [])"
    by simp
  from malformed_country_rejected [of ?req2 userA "lit '' fra ''" exampleEnv 3000 id2 "[parisDoc]"] h3 h4 n2
  have b: "createCity exampleEnv 3000 id2 ?req2 [parisDoc]
     = (Response 400 (Message ''City name is required''), [parisDoc], [])"
    by simp
  from a b show ?thesis by simp
qed

text \<open>
  A country that is two letters only after uppercasing is not malformed: the sharp s is
  uppercased to SS, and the request goes on to the geocoder.
\<close>

lemma sharp_s_country_example:
  "toUpperCase exampleEnv (trim [223]) = lit ''SS''
   \<and> createCity exampleEnv 3000 id2 \<lparr> cr_user = Some userA, cr_name = Some (lit ''Paris''), cr_country = Some [223] \<rparr> [parisDoc]
     = (Response 400 (Message (''We couldn'' @ [CHR 0x27] @ ''t find that city in the specified country. Please check the name and country code.'')),
        [parisDoc], [GeoCall (lit ''Paris,SS'')])"
  by code_simp

subsection \<open>Names that are not found or ambiguous\<close>

lemma planCity_not_found_or_ambiguous:
  assumes "cr_user req = Some uid" and "cr_name req = Some typed"
    and "resolveExactCity e (trim typed) (normalizedCountryOf e (cr_country req)) = (Inr ms, calls)"
    and "ms = [] \<or> (\<not> truthyStr (normalizedCountryOf e (cr_country req)) \<and> 1 < length (distinctCountries e ms))"
  shows "\<exists>m cs. planCity e newId req = Inl (Response 400 (Message m), cs)"
proof (cases "truthyStr (normalizedCountryOf e (cr_country req))")
  case False
  with assms show ?thesis
    by (cases ms) (auto simp: planCity_def Let_def split: option.splits)
next
  case True
  with assms(4) have "ms = []" by simp
  with True assms(1,2,3) show ?thesis
    by (auto simp: planCity_def Let_def split: option.splits)
qed

text \<open>The city that goes to the insert is one of the exact matches for the typed name.\<close>

lemma planCity_exact:
  assumes "planCity e t req = Inr (p, calls)" and "cr_name req = Some typed"
  shows "p_name p \<noteq> [] \<and> toLowerCase e (trim (p_name p)) = toLowerCase e (trim (trim typed))"
proof -
  from assms obtain uid where uid: "cr_user req = Some uid"
    by (auto simp: planCity_def split: option.splits)
  let ?cc = "normalizedCountryOf e (cr_country req)"
  from assms uid obtain ms calls0 where r: "resolveExactCity e (trim typed) ?cc = (Inr ms, calls0)"
    by (auto simp: planCity_def Let_def split: if_splits prod.splits sum.splits)
  have "\<exists>best. best \<in> set ms \<and> p_name p = loc_name best"
  proof (cases "truthyStr ?cc")
    case False
    with assms uid r obtain best rest where ms: "ms = best # rest" and n: "p_name p = loc_name best"
      by (auto simp: planCity_def Let_def split: if_splits list.splits dest!: validateWeather_payload)
    from ms have "best \<in> set ms" by simp
    with n show ?thesis by blast
  next
    case True
    with assms uid r obtain best rest where
      f: "filter (\<lambda>m. upperCountry e m = ?cc) ms = best # rest" and n: "p_name p = loc_name best"
      by (auto simp: planCity_def Let_def split: if_splits list.splits dest!: validateWeather_payload)
    from filter_Cons_mem [OF f] have "best \<in> set ms" .
    with n show ?thesis by blast
  qed
  then obtain best where b: "best \<in> set ms" and n: "p_name p = loc_name best" by blast
  from r obtain raw where "ms = filter (isExactMatch e (trim typed)) raw"
    by (auto simp: resolveExactCity_def split: prod.splits sum.splits)
  with b have "isExactMatch e (trim typed) best" by simp
  with n show ?thesis by (simp add: isExactMatch_def)
qed

text \<open>
  C2.  The handler is mounted behind \<open>authMiddleware\<close>, so a request that it receives
  has \<open>req.user\<close> set.  \<open>resolveExactCity\<close> keeps of the geocoder's results those whose
  name is non-empty and equals the name asked for, both trimmed and lowercased.  If the
  exact matches for the typed name are none, or no country code is supplied and the
  matches have more than one distinct country, then \<open>createCity\<close> answers 400 and
  stores nothing.  \<open>createCity\<close> stores a city only with the answer 201: either it
  answers 201 with the document it appended, or its answer is not 201 and the collection
  is as it was.  And the name of a city it stores is an exact match for the typed name.
\<close>

theorem city_name_validated:
  assumes "cr_user req = Some uid"
  shows
   "(resolveCity e name cc = (Inr raw, calls0) \<longrightarrow>
      resolveExactCity e name cc
      = (Inr (filter (\<lambda>item. loc_name item \<noteq> [] \<and>
                             toLowerCase e (trim (loc_name item)) = toLowerCase e (trim name)) raw), calls0))
   \<and> (cr_name req = Some typed \<and>
      resolveExactCity e (trim typed) (normalizedCountryOf e (cr_country req)) = (Inr ms, calls) \<and>
      (ms = [] \<or> (\<not> truthyStr (normalizedCountryOf e (cr_country req)) \<and> 1 < length (distinctCountries e ms)))
      \<longrightarrow> status (fst (createCity e now newId req store)) = 400
          \<and> fst (snd (createCity e now newId req store)) = store)
   \<and> ((\<exists>d. fst (createCity e now newId req store) = Response 201 (cityJson d)
            \<and> fst (snd (createCity e now newId req store)) = store @ [d])
      \<or> (status (fst (createCity e now newId req store)) \<noteq> 201
            \<and> fst (snd (createCity e now newId req store)) = store))
   \<and> (cr_name req = Some typed \<and> fst (createCity e now newId req store) = Response 201 (cityJson d)
      \<and> fst (snd (createCity e now newId req store)) = store @ [d]
      \<longrightarrow> c_name d \<noteq> [] \<and> toLowerCase e (trim (c_name d)) = toLowerCase e (trim (trim typed)))"
proof (intro conjI)
  show "resolveCity e name cc = (Inr raw, calls0) \<longrightarrow>
            resolveExactCity e name cc
            = (Inr (filter (\<lambda>item. loc_name item \<noteq> [] \<and>
                                   toLowerCase e (trim (loc_name item)) = toLowerCase e (trim name)) raw), calls0)"
    by (simp add: resolveExactCity_def isExactMatch_def [abs_def])
next
  show "cr_name req = Some typed \<and>
      resolveExactCity e (trim typed) (normalizedCountryOf e (cr_country req)) = (Inr ms, calls) \<and>
      (ms = [] \<or> (\<not> truthyStr (normalizedCountryOf e (cr_country req)) \<and> 1 < length (distinctCountries e ms)))
      \<longrightarrow> status (fst (createCity e now newId req store)) = 400
          \<and> fst (snd (createCity e now newId req store)) = store"
  proof
    assume h: "cr_name req = Some typed \<and>
      resolveExactCity e (trim typed) (normalizedCountryOf e (cr_country req)) = (Inr ms, calls) \<and>
      (ms = [] \<or> (\<not> truthyStr (normalizedCountryOf e (cr_country req)) \<and> 1 < length (distinctCountries e ms)))"
    with planCity_not_found_or_ambiguous [OF assms, of typed e ms calls newId]
    obtain m cs where "planCity e newId req = Inl (Response 400 (Message m), cs)" by blast
    then show "status (fst (createCity e now newId req store)) = 400
          \<and> fst (snd (createCity e now newId req store)) = store"
      by (simp add: createCity_def)
  qed
next
  obtain r s' cs where c: "createCity e now newId req store = (r, s', cs)"
    by (cases "createCity e now newId req store")
  from createCity_cases [OF c] c
  show "(\<exists>d. fst (createCity e now newId req store) = Response 201 (cityJson d)
                  \<and> fst (snd (createCity e now newId req store)) = store @ [d])
            \<or> (status (fst (createCity e now newId req store)) \<noteq> 201
                  \<and> fst (snd (createCity e now newId req store)) = store)"
    by auto
next
  show "cr_name req = Some typed \<and> fst (createCity e now newId req store) = Response 201 (cityJson d)
      \<and> fst (snd (createCity e now newId req store)) = store @ [d]
      \<longrightarrow> c_name d \<noteq> [] \<and> toLowerCase e (trim (c_name d)) = toLowerCase e (trim (trim typed))"
  proof
    assume h: "cr_name req = Some typed \<and> fst (createCity e now newId req store) = Response 201 (cityJson d)
      \<and> fst (snd (createCity e now newId req store)) = store @ [d]"
    obtain r s' cs where c: "createCity e now newId req store = (r, s', cs)"
      by (cases "createCity e now newId req store")
    with h have c': "createCity e now newId req store = (Response 201 (cityJson d), store @ [d], cs)"
      by simp
    from createCity_created [OF c'] obtain d' p c0 where
      pl: "planCity e newId req = Inr (p, c0)"
      and ins: "createCityForUser e now newId p store = Inr (d', store @ [d])" by blast
    from createCityForUser_Inr [OF ins] have "d' = d" and "c_name d' = p_name p" by simp_all
    with planCity_exact [OF pl] h
    show "c_name d \<noteq> [] \<and> toLowerCase e (trim (c_name d)) = toLowerCase e (trim (trim typed))"
      by simp
  qed
qed

text \<open>
  The theorem at two requests of user A in the example environment: Atlantis, which the
  geocoder does not know, and PARIS with a blank country, which it knows in FR and in US.
  And at the request for \<open>\<Eacute>vry\<close> typed in small letters, which is stored under the
  geocoder's name.
\<close>

theorem city_name_validated_witness:
  "status (fst (createCity exampleEnv 3000 id2 atlantisReq [parisDoc])) = 400
   \<and> fst (snd (createCity exampleEnv 3000 id2 atlantisReq [parisDoc])) = [parisDoc]
   \<and> status (fst (createCity exampleEnv 3000 id2 ambiguousReq [parisDoc])) = 400
   \<and> fst (snd (createCity exampleEnv 3000 id2 ambiguousReq [parisDoc])) = [parisDoc]
   \<and> createCity exampleEnv 2000 id2 evryReq [parisDoc]
       = (Response 201 (cityJson evryDoc), [parisDoc, evryDoc], [GeoCall evryTyped, WeatherCall (evryName @ lit '',FR'')])
   \<and> toLowerCase exampleEnv (trim (c_name evryDoc)) = toLowerCase exampleEnv (trim (trim evryTyped))"
proof -
  have a1: "cr_user atlantisReq = Some userA" by (simp add: atlantisReq_def)
  have a2: "cr_name atlantisReq = Some (lit ''Atlantis'')" by (simp add: atlantisReq_def)
  have a3: "resolveExactCity exampleEnv (trim (lit ''Atlantis'')) (normalizedCountryOf exampleEnv (cr_country atlantisReq))
            = (Inr [], [GeoCall (lit ''Atlantis'')])"
    by code_simp
  have b1: "cr_user ambiguousReq = Some userA" by (simp add: ambiguousReq_def)
  have b2: "cr_name ambiguousReq = Some (lit ''PARIS'')" by (simp add: ambiguousReq_def)
  have b3: "resolveExactCity exampleEnv (trim (lit ''PARIS'')) (normalizedCountryOf exampleEnv (cr_country ambiguousReq))
            = (Inr (take 2 exampleGeo), [GeoCall (lit ''PARIS'')])"
    by code_simp
  have b4: "\<not> truthyStr (normalizedCountryOf exampleEnv (cr_country ambiguousReq))" by code_simp
  have b5: "1 < length (distinctCountries exampleEnv (take 2 exampleGeo))" by code_simp
  have c1: "cr_user evryReq = Some userA" by (simp add: evryReq_def)
  have c2: "cr_name evryReq = Some evryTyped" by (simp add: evryReq_def)
  from city_name_validated [OF a1, where typed = "lit ''Atlantis''" and e = exampleEnv
      and ms = "[]" and calls = "[GeoCall (lit ''Atlantis'')]" and newId = id2 and store = "[parisDoc]" and now = 3000] a2 a3
  have A: "status (fst (createCity exampleEnv 3000 id2 atlantisReq [parisDoc])) = 400
   \<and> fst (snd (createCity exampleEnv 3000 id2 atlantisReq [parisDoc])) = [parisDoc]"
    by simp
  from city_name_validated [OF b1, where typed = "lit ''PARIS''" and e = exampleEnv
      and ms = "take 2 exampleGeo" and calls = "[GeoCall (lit ''PARIS'')]" and newId = id2 and store = "[parisDoc]" and now = 3000]
    b2 b3 b4 b5
  have B: "status (fst (createCity exampleEnv 3000 id2 ambiguousReq [parisDoc])) = 400
   \<and> fst (snd (createCity exampleEnv 3000 id2 ambiguousReq [parisDoc])) = [parisDoc]"
    by simp
  from city_name_validated [OF c1, where typed = evryTyped and e = exampleEnv and d = evryDoc
      and newId = id2 and store = "[parisDoc]" and now = 2000] c2 example_created_evry
  have C: "toLowerCase exampleEnv (trim (c_name evryDoc)) = toLowerCase exampleEnv (trim (trim evryTyped))"
    by simp
  from A B C example_created_evry show ?thesis by simp
qed

subsection \<open>Login\<close>

text \<open>
  C6, as the code has it.  If no user has the email, or the password does not match the
  stored hash, then \<open>loginUser\<close> throws INVALID_CREDENTIALS, and the login handler
  answers without a token: 401 "Invalid email or password" when email and password are
  both non-empty, and 400 "email and password are required" when one of them is empty
  (the handler's first check, which comes before \<open>loginUser\<close> is called).  The handler
  answers 200 with a token only for an email that has a user and a password that matches
  that user's hash.
\<close>

theorem wrong_password_fails:
  assumes "findUserByEmail users email = None
           \<or> (\<exists>u. findUserByEmail users email = Some u \<and> \<not> bcryptCompare e password (u_passwordHash u))"
  shows "loginUser e users email password = Inl (Error ''INVALID_CREDENTIALS'')
         \<and> login e users (Some email) (Some password)
             = (if email \<noteq> [] \<and> password \<noteq> []
                then Response 401 (Message ''Invalid email or password'')
                else Response 400 (Message ''email and password are required''))
         \<and> (login e users emailField passwordField = Response 200 (LoginJson token i n m)
              \<longrightarrow> (\<exists>em pw u. emailField = Some em \<and> passwordField = Some pw
                     \<and> findUserByEmail users em = Some u \<and> bcryptCompare e pw (u_passwordHash u)))"
proof (intro conjI)
  from assms show lu: "loginUser e users email password = Inl (Error ''INVALID_CREDENTIALS'')"
    by (auto simp: loginUser_def)
  then show "login e users (Some email) (Some password)
             = (if email \<noteq> [] \<and> password \<noteq> []
                then Response 401 (Message ''Invalid email or password'')
                else Response 400 (Message ''email and password are required''))"
    by (simp add: login_def)
next
  show "login e users emailField passwordField = Response 200 (LoginJson token i n m)
              \<longrightarrow> (\<exists>em pw u. emailField = Some em \<and> passwordField = Some pw
                     \<and> findUserByEmail users em = Some u \<and> bcryptCompare e pw (u_passwordHash u))"
    by (auto simp: login_def loginUser_def split: option.splits if_splits sum.splits prod.splits)
qed

theorem wrong_password_fails_witness:
  "loginUser exampleEnv [aliceUser] (lit ''alice@example.com'') (lit ''guess'') = Inl (Error ''INVALID_CREDENTIALS'')
   \<and> login exampleEnv [aliceUser] (Some (lit ''alice@example.com'')) (Some (lit ''guess''))
       = Response 401 (Message ''Invalid email or password'')
   \<and> login exampleEnv [aliceUser] (Some (lit ''bob@example.com'')) (Some [])
       = Response 400 (Message ''email and password are required'')"
proof -
  have h1: "findUserByEmail [aliceUser] (lit ''alice@example.com'') = None
           \<or> (\<exists>u. findUserByEmail [aliceUser] (lit ''alice@example.com'') = Some u
                  \<and> \<not> bcryptCompare exampleEnv (lit ''guess'') (u_passwordHash u))"
  proof -
    have "findUserByEmail [aliceUser] (lit ''alice@example.com'') = Some aliceUser" by code_simp
    moreover have "\<not> bcryptCompare exampleEnv (lit ''guess'') (u_passwordHash aliceUser)" by code_simp
    ultimately show ?thesis by simp
  qed
  have h2: "findUserByEmail [aliceUser] (lit ''bob@example.com'') = None
           \<or> (\<exists>u. findUserByEmail [aliceUser] (lit ''bob@example.com'') = Some u
                  \<and> \<not> bcryptCompare exampleEnv [] (u_passwordHash u))"
  proof -
    have "findUserByEmail [aliceUser] (lit ''bob@example.com'') = None" by code_simp
    then show ?thesis by simp
  qed
  have ne: "lit ''alice@example.com'' \<noteq> [] \<and> lit ''guess'' \<noteq> []" by code_simp
  from wrong_password_fails [OF h1] wrong_password_fails [OF h2] ne show ?thesis by simp
qed

text \<open>
  The claim that the endpoint answers 401 for every email and password that do not match
  fails at the empty password: the answer is 400, for an email without a user and for
  Alice's email alike.
\<close>

theorem wrong_password_empty_counterexample:
  "findUserByEmail [aliceUser] (lit ''bob@example.com'') = None
   \<and> login exampleEnv [aliceUser] (Some (lit ''bob@example.com'')) (Some [])
       = Response 400 (Message ''email and password are required'')
   \<and> bcryptCompare exampleEnv [] (u_passwordHash aliceUser) = False
   \<and> login exampleEnv [aliceUser] (Some (lit ''alice@example.com'')) (Some [])
       = Response 400 (Message ''email and password are required'')"
  by code_simp

subsection \<open>The heuristic fallback\<close>

lemma map_insort_key: "map f (insort_key f x xs) = insort (f x) (map f xs)"
  by (induction xs) simp_all

lemma map_sort_key: "map f (sort_key f xs) = sort (map f xs)"
  by (induction xs) (simp_all add: map_insort_key)

lemma sorted_le_last:
  fixes zs :: "('a::linorder) list"
  shows "sorted zs \<Longrightarrow> z \<in> set zs \<Longrightarrow> z \<le> last zs"
  by (induction zs) auto

lemma hd_sort_key_Min:
  fixes f :: "'a \<Rightarrow> 'b::linorder"
  assumes "xs \<noteq> []"
  shows "hd (sort_key f xs) \<in> set xs \<and> f (hd (sort_key f xs)) = Min (f ` set xs)"
proof -
  from assms have "sort_key f xs \<noteq> []" by (metis length_sort length_0_conv)
  then obtain y ys where ys: "sort_key f xs = y # ys" by (cases "sort_key f xs") auto
  have "sorted (map f (sort_key f xs))" by simp
  with ys have le: "\<forall>z\<in>set ys. f y \<le> f z" by simp
  have set: "set xs = set (y # ys)" using ys set_sort [of f xs] by simp
  have "Min (f ` set xs) = f y"
  proof (rule Min_eqI)
    show "finite (f ` set xs)" by simp
    show "f y \<in> f ` set xs" using set by simp
    fix v assume "v \<in> f ` set xs"
    with set le show "f y \<le> v" by auto
  qed
  with ys set show ?thesis by simp
qed

lemma last_sort_key_Max:
  fixes f :: "'a \<Rightarrow> 'b::linorder"
  assumes "xs \<noteq> []"
  shows "last (sort_key f xs) \<in> set xs \<and> f (last (sort_key f xs)) = Max (f ` set xs)"
proof -
  let ?ys = "sort_key f xs"
  from assms have ne: "?ys \<noteq> []" by (metis length_sort length_0_conv)
  then have mem: "last ?ys \<in> set xs" using last_in_set [OF ne] by simp
  have srt: "sorted (map f ?ys)" by simp
  have "Max (f ` set xs) = f (last ?ys)"
  proof (rule Max_eqI)
    show "finite (f ` set xs)" by simp
    show "f (last ?ys) \<in> f ` set xs" using mem by simp
    fix v assume "v \<in> f ` set xs"
    then have "v \<in> set (map f ?ys)" by simp
    from sorted_le_last [OF srt this] ne show "v \<le> f (last ?ys)" by (simp add: last_map)
  qed
  with mem show ?thesis by simp
qed

text \<open>
  Of several cities with the least temperature the heuristic names the one whose line
  comes first, and of several with the greatest the one whose line comes last: the sort
  is stable.
\<close>

lemma sort_key_stable_filter: "filter (\<lambda>y. f y = k) (sort_key f xs) = filter (\<lambda>y. f y = k) xs"
  by (rule sort_key_stable)

text \<open>
  Where the arithmetic of the environment is exact (the numbers are those of an ordered
  field), the sum does not depend on the order and the average is the mean.
\<close>

lemma foldl_add_sum_list:
  fixes xs :: "('a::comm_monoid_add) list"
  shows "foldl (\<lambda>x y. x + y) a xs = a + sum_list xs"
  by (induction xs arbitrary: a) (simp_all add: add.assoc)

lemma sum_list_insort:
  fixes xs :: "('a::{linorder,comm_monoid_add}) list"
  shows "sum_list (insort x xs) = x + sum_list xs"
  by (induction xs) (simp_all add: add.left_commute)

lemma sum_list_sort:
  fixes xs :: "('a::{linorder,comm_monoid_add}) list"
  shows "sum_list (sort xs) = sum_list xs"
  by (induction xs) (simp_all add: sum_list_insort)

lemma exact_average:
  fixes e :: "('n::linordered_field) env"
  assumes "numZero e = 0" and "numAdd e = (\<lambda>x y. x + y)" and "numDivLength e = (\<lambda>x n. x / of_nat n)"
  shows "numDivLength e (foldl (numAdd e) (numZero e) (sort xs)) (length xs)
         = sum_list xs / of_nat (length xs)"
  by (simp add: assms foldl_add_sum_list sum_list_sort)

text \<open>
  C7.  When no API key is configured, or the call of the generative API throws,
  \<open>getAiInsight\<close> returns what \<open>heuristicFallback\<close> returns, and that has
  \<open>usedFallback = true\<close>.  When the loop over the lines of the summary has parsed at
  least one temperature, the answer names a city with the least parsed temperature as the
  coldest, a city with the greatest as the warmest, and as the average the parsed
  temperatures added up from 0 in ascending order and divided by their number.  The
  numbers are those of the environment (in the program, doubles): least and greatest are
  meant in their order, the sum and the quotient are the environment's, and so is the
  text \<open>toFixed1\<close> writes for a number.
\<close>

theorem ai_fallback_heuristic:
  "(\<not> truthyStr (GEMINI_API_KEY e) \<or> geminiPost e (buildPrompt question ws) = Inl err
      \<longrightarrow> fst (getAiInsight e question ws) = heuristicFallback e question ws)
   \<and> usedFallback (heuristicFallback e question ws) = True
   \<and> (collectTemps e (summaryLines ws) = temps \<and> temps \<noteq> []
      \<longrightarrow> (\<exists>coldCity warmCity.
             (coldCity, Min (snd ` set temps)) \<in> set temps
           \<and> (warmCity, Max (snd ` set temps)) \<in> set temps
           \<and> answer (heuristicFallback e question ws)
               = lit ''Here is a quick heuristic summary based on your cities:''
                 @ newline @ lit ''- Coldest city: '' @ coldCity @ lit '' at ''
                     @ toFixed1 e (Min (snd ` set temps)) @ degreeC @ lit ''.''
                 @ newline @ lit ''- Warmest city: '' @ warmCity @ lit '' at ''
                     @ toFixed1 e (Max (snd ` set temps)) @ degreeC @ lit ''.''
                 @ newline @ lit ''- Average temperature across your cities: ''
                     @ toFixed1 e (numDivLength e (foldl (numAdd e) (numZero e) (sort (map snd temps)))
                                     (length temps))
                     @ degreeC @ lit ''.''
                 @ newline @ newline
                 @ lit ''AI provider is not configured or not reachable, so this is a simple heuristic summary instead of a full AI answer.''))"
proof (intro conjI)
  show "\<not> truthyStr (GEMINI_API_KEY e) \<or> geminiPost e (buildPrompt question ws) = Inl err
      \<longrightarrow> fst (getAiInsight e question ws) = heuristicFallback e question ws"
    by (auto simp: getAiInsight_def Let_def)
next
  show "usedFallback (heuristicFallback e question ws) = True"
    by (simp add: heuristicFallback_def Let_def)
next
  show "collectTemps e (summaryLines ws) = temps \<and> temps \<noteq> []
      \<longrightarrow> (\<exists>coldCity warmCity.
             (coldCity, Min (snd ` set temps)) \<in> set temps
           \<and> (warmCity, Max (snd ` set temps)) \<in> set temps
           \<and> answer (heuristicFallback e question ws)
               = lit ''Here is a quick heuristic summary based on your cities:''
                 @ newline @ lit ''- Coldest city: '' @ coldCity @ lit '' at ''
                     @ toFixed1 e (Min (snd ` set temps)) @ degreeC @ lit ''.''
                 @ newline @ lit ''- Warmest city: '' @ warmCity @ lit '' at ''
                     @ toFixed1 e (Max (snd ` set temps)) @ degreeC @ lit ''.''
                 @ newline @ lit ''- Average temperature across your cities: ''
                     @ toFixed1 e (numDivLength e (foldl (numAdd e) (numZero e) (sort (map snd temps)))
                                     (length temps))
                     @ degreeC @ lit ''.''
                 @ newline @ newline
                 @ lit ''AI provider is not configured or not reachable, so this is a simple heuristic summary instead of a full AI answer.'')"
  proof
    assume h: "collectTemps e (summaryLines ws) = temps \<and> temps \<noteq> []"
    then have ne: "temps \<noteq> []" and ct: "collectTemps e (summaryLines ws) = temps" by simp_all
    from ct ne have lines: "summaryLines ws \<noteq> []" by auto
    let ?c = "hd (sort_key snd temps)" and ?w = "last (sort_key snd temps)"
    from hd_sort_key_Min [OF ne, of snd]
    have c: "?c \<in> set temps" "snd ?c = Min (snd ` set temps)" by simp_all
    from last_sort_key_Max [OF ne, of snd]
    have w: "?w \<in> set temps" "snd ?w = Max (snd ` set temps)" by simp_all
    have srt: "map snd (sort_key snd temps) = sort (map snd temps)"
      by (rule map_sort_key)
    from c have c': "(fst ?c, Min (snd ` set temps)) \<in> set temps"
      by (metis prod.collapse)
    from w have w': "(fst ?w, Max (snd ` set temps)) \<in> set temps"
      by (metis prod.collapse)
    have "answer (heuristicFallback e question ws)
               = lit ''Here is a quick heuristic summary based on your cities:''
                 @ newline @ lit ''- Coldest city: '' @ fst ?c @ lit '' at ''
                     @ toFixed1 e (Min (snd ` set temps)) @ degreeC @ lit ''.''
                 @ newline @ lit ''- Warmest city: '' @ fst ?w @ lit '' at ''
                     @ toFixed1 e (Max (snd ` set temps)) @ degreeC @ lit ''.''
                 @ newline @ lit ''- Average temperature across your cities: ''
                     @ toFixed1 e (numDivLength e (foldl (numAdd e) (numZero e) (sort (map snd temps)))
                                     (length temps))
                     @ degreeC @ lit ''.''
                 @ newline @ newline
                 @ lit ''AI provider is not configured or not reachable, so this is a simple heuristic summary instead of a full AI answer.''"
      using lines ct ne c(2) w(2) srt
      by (simp add: heuristicFallback_def Let_def)
    with c' w' show "\<exists>coldCity warmCity.
             (coldCity, Min (snd ` set temps)) \<in> set temps
           \<and> (warmCity, Max (snd ` set temps)) \<in> set temps
           \<and> answer (heuristicFallback e question ws)
               = lit ''Here is a quick heuristic summary based on your cities:''
                 @ newline @ lit ''- Coldest city: '' @ coldCity @ lit '' at ''
                     @ toFixed1 e (Min (snd ` set temps)) @ degreeC @ lit ''.''
                 @ newline @ lit ''- Warmest city: '' @ warmCity @ lit '' at ''
                     @ toFixed1 e (Max (snd ` set temps)) @ degreeC @ lit ''.''
                 @ newline @ lit ''- Average temperature across your cities: ''
                     @ toFixed1 e (numDivLength e (foldl (numAdd e) (numZero e) (sort (map snd temps)))
                                     (length temps))
                     @ degreeC @ lit ''.''
                 @ newline @ newline
                 @ lit ''AI provider is not configured or not reachable, so this is a simple heuristic summary instead of a full AI answer.''"
      by blast
  qed
qed

lemma example_temps:
  "collectTemps exampleEnv (summaryLines exampleSummary)
   = [(lit ''Paris'', 25 / 2), (lit ''Oslo'', - 3), (lit ''Cairo'', 59 / 2)]"
  by code_simp

text \<open>
  The theorem at a summary of four lines, three of which parse, with no API key.
\<close>

theorem ai_fallback_heuristic_witness:
  "fst (getAiInsight exampleEnv (lit ''Which city is warmest?'') exampleSummary)
     = heuristicFallback exampleEnv (lit ''Which city is warmest?'') exampleSummary
   \<and> usedFallback (heuristicFallback exampleEnv (lit ''Which city is warmest?'') exampleSummary) = True
   \<and> answer (heuristicFallback exampleEnv (lit ''Which city is warmest?'') exampleSummary)
       = lit ''Here is a quick heuristic summary based on your cities:''
         @ newline @ lit ''- Coldest city: Oslo at -3.0'' @ degreeC @ lit ''.''
         @ newline @ lit ''- Warmest city: Cairo at 29.5'' @ degreeC @ lit ''.''
         @ newline @ lit ''- Average temperature across your cities: 13.0'' @ degreeC @ lit ''.''
         @ newline @ newline
         @ lit ''AI provider is not configured or not reachable, so this is a simple heuristic summary instead of a full AI answer.''"
proof -
  let ?q = "lit ''Which city is warmest?''"
  let ?temps = "[(lit ''Paris'', 25 / 2), (lit ''Oslo'', - 3), (lit ''Cairo'', 59 / 2 :: rat)]"
  have key: "\<not> truthyStr (GEMINI_API_KEY exampleEnv)" by code_simp
  have temps: "collectTemps exampleEnv (summaryLines exampleSummary) = ?temps" by (rule example_temps)
  have mn: "Min (snd ` set ?temps) = - 3" by simp
  have mx: "Max (snd ` set ?temps) = 59 / 2" by simp
  have av: "numDivLength exampleEnv (foldl (numAdd exampleEnv) (numZero exampleEnv) (sort (map snd ?temps)))
              (length ?temps) = 13"
    by code_simp
  have f1: "toFixed1 exampleEnv (- 3) = lit ''-3.0''" by code_simp
  have f2: "toFixed1 exampleEnv (59 / 2) = lit ''29.5''" by code_simp
  have f3: "toFixed1 exampleEnv 13 = lit ''13.0''" by code_simp
  have ne1: "lit ''Paris'' \<noteq> lit ''Oslo'' \<and> lit ''Cairo'' \<noteq> lit ''Oslo'' \<and> lit ''Paris'' \<noteq> lit ''Cairo''"
    by code_simp
  have l1: "lit ''- Coldest city: '' @ lit ''Oslo'' @ lit '' at '' @ lit ''-3.0'' = lit ''- Coldest city: Oslo at -3.0''"
    by code_simp
  have l2: "lit ''- Warmest city: '' @ lit ''Cairo'' @ lit '' at '' @ lit ''29.5'' = lit ''- Warmest city: Cairo at 29.5''"
    by code_simp
  have l3: "lit ''- Average temperature across your cities: '' @ lit ''13.0''
            = lit ''- Average temperature across your cities: 13.0''"
    by code_simp
  note inst = ai_fallback_heuristic [of exampleEnv ?q exampleSummary _ ?temps]
  from inst key have a: "fst (getAiInsight exampleEnv ?q exampleSummary)
     = heuristicFallback exampleEnv ?q exampleSummary" by blast
  from inst have b: "usedFallback (heuristicFallback exampleEnv ?q exampleSummary) = True"
    by blast
  from inst temps obtain coldCity warmCity where
    c: "(coldCity, Min (snd ` set ?temps)) \<in> set ?temps" and
    w: "(warmCity, Max (snd ` set ?temps)) \<in> set ?temps" and
    ans: "answer (heuristicFallback exampleEnv ?q exampleSummary)
               = lit ''Here is a quick heuristic summary based on your cities:''
                 @ newline @ lit ''- Coldest city: '' @ coldCity @ lit '' at ''
                     @ toFixed1 exampleEnv (Min (snd ` set ?temps)) @ degreeC @ lit ''.''
                 @ newline @ lit ''- Warmest city: '' @ warmCity @ lit '' at ''
                     @ toFixed1 exampleEnv (Max (snd ` set ?temps)) @ degreeC @ lit ''.''
                 @ newline @ lit ''- Average temperature across your cities: ''
                     @ toFixed1 exampleEnv (numDivLength exampleEnv
                          (foldl (numAdd exampleEnv) (numZero exampleEnv) (sort (map snd ?temps))) (length ?temps))
                     @ degreeC @ lit ''.''
                 @ newline @ newline
                 @ lit ''AI provider is not configured or not reachable, so this is a simple heuristic summary instead of a full AI answer.''"
    by blast
  from c have cc: "coldCity = lit ''Oslo''" unfolding mn by simp
  from w have wc: "warmCity = lit ''Cairo''" unfolding mx by simp
  from ans have "answer (heuristicFallback exampleEnv ?q exampleSummary)
       = lit ''Here is a quick heuristic summary based on your cities:''
         @ newline @ lit ''- Coldest city: Oslo at -3.0'' @ degreeC @ lit ''.''
         @ newline @ lit ''- Warmest city: Cairo at 29.5'' @ degreeC @ lit ''.''
         @ newline @ lit ''- Average temperature across your cities: 13.0'' @ degreeC @ lit ''.''
         @ newline @ newline
         @ lit ''AI provider is not configured or not reachable, so this is a simple heuristic summary instead of a full AI answer.''"
    unfolding mn mx av f1 f2 f3 cc wc
    using l1 l2 l3 by (simp only: append_assoc [symmetric]) (simp only: append_assoc l1 l2 l3)
  with a b show ?thesis by simp
qed

subsection \<open>Failures of the weather provider\<close>

lemma weatherLines_eq:
  "weatherLines e cs
   = (List.map_filter (\<lambda>c. fst (cityLine e c)) cs, concat (map (\<lambda>c. snd (fetchWeatherForCity e c)) cs))"
proof (induction cs)
  case Nil
  show ?case by simp
next
  case (Cons c cs)
  have calls: "snd (cityLine e c) = snd (fetchWeatherForCity e c)"
    by (simp add: cityLine_def split: prod.splits sum.splits option.splits)
  obtain l k where lk: "cityLine e c = (l, k)" by (cases "cityLine e c")
  with calls Cons show ?case
    by (simp split: option.splits)
qed

lemma validateWeather_Inr:
  assumes "validateWeather e t p calls = Inr (p', calls')"
  shows "p' = p \<and> (\<forall>err wc. probeWeather e t p = (Inl err, wc) \<longrightarrow> \<not> isCityNotFound err)"
  using assms by (auto simp: validateWeather_def split: prod.splits sum.splits if_splits)

lemma planCity_probe:
  assumes "planCity e t req = Inr (p, calls)"
  shows "\<forall>err wc. probeWeather e t p = (Inl err, wc) \<longrightarrow> \<not> isCityNotFound err"
  using assms
  by (auto simp: planCity_def Let_def split: option.splits if_splits prod.splits sum.splits list.splits
           dest!: validateWeather_Inr)

lemma fetchWeatherForCity_cong:
  assumes n: "c_name c = c_name c'" and k: "c_country c = c_country c'"
  shows "fetchWeatherForCity e c = fetchWeatherForCity e c'"
  unfolding fetchWeatherForCity_def n k ..

lemma createCityForUser_probe:
  assumes "createCityForUser e' now newId p store = Inr (d, s')"
  shows "probeWeather e t p = fetchWeatherForCity e d"
proof -
  from assms obtain uid where uid: "ObjectId (p_userId p) = Inr uid"
    by (cases "ObjectId (p_userId p)") (simp_all add: createCityForUser_def)
  with assms save_Inr have nd: "c_name d = p_name p" "c_country d = p_country p"
    by (fastforce simp: createCityForUser_def)+
  from uid have "probeWeather e t p
      = fetchWeatherForCity e \<lparr> c_id = t, c_userId = uid, c_name = p_name p,
              c_nameNormalized = p_nameNormalized p, c_country = p_country p,
              c_apiCityId = None, c_isFavorite = False, c_createdAt = 0, c_updatedAt = 0 \<rparr>"
    by (simp add: probeWeather_def)
  also have "\<dots> = fetchWeatherForCity e d"
    by (rule fetchWeatherForCity_cong) (simp_all add: nd)
  finally show ?thesis .
qed

lemma createCity_persisted_probe:
  assumes "createCity e now newId req store = (r, store', calls)" and "store' \<noteq> store"
  shows "\<exists>d. store' = store @ [d] \<and> r = Response 201 (cityJson d)
             \<and> (\<forall>err. fst (fetchWeatherForCity e d) = Inl err \<longrightarrow> \<not> isCityNotFound err)"
proof (cases "planCity e newId req")
  case (Inl a)
  with assms show ?thesis by (auto simp: createCity_def split: prod.splits)
next
  case (Inr b)
  obtain p c0 where b: "b = (p, c0)" by (cases b)
  show ?thesis
  proof (cases "createCityForUser e now newId p store")
    case (Inl err)
    with Inr b assms show ?thesis by (auto simp: createCity_def persistCity_def)
  next
    case ins: (Inr ds)
    obtain d s2 where ds: "ds = (d, s2)" by (cases ds)
    from ins ds createCityForUser_Inr [of e now newId p store d s2] have s2: "s2 = store @ [d]" by simp
    from ins ds have pr: "probeWeather e newId p = fetchWeatherForCity e d"
      using createCityForUser_probe by blast
    from Inr b planCity_probe [of e newId req p c0]
    have "\<forall>err wc. probeWeather e newId p = (Inl err, wc) \<longrightarrow> \<not> isCityNotFound err" by simp
    with pr have "\<forall>err. fst (fetchWeatherForCity e d) = Inl err \<longrightarrow> \<not> isCityNotFound err"
      by (metis prod.collapse)
    with Inr b ins ds s2 assms show ?thesis
      by (auto simp: createCity_def persistCity_def)
  qed
qed

text \<open>
  C8, as the code has it.  In \<open>getInsights\<close> a failure of the weather call for a city
  does not abort the request: for an authenticated user with a question and at least one
  city, the weather of every city is asked for, the summary is made of the lines of the
  cities whose weather loaded (a city whose call failed gives no line), and the answer
  is 200.  In \<open>createCity\<close> a city is stored only if its weather probe did not fail as
  not found; a probe that fails as not found (status 404, cod 404 or the message "city
  not found") ends the request with 400, and after a probe that fails in any other way
  the handler goes on to the insert.  What does end a request: an error of the listing of
  the cities ends \<open>getInsights\<close> with 500 and no external call, and an error of the
  geocoding lookup ends \<open>createCity\<close> with 400 and nothing stored.
\<close>

theorem weather_failure_handling:
  "(user = Some uid \<and> questionField = Some question \<and> trim question \<noteq> []
      \<and> listCitiesForUser uid store = Inr cities \<and> cities \<noteq> []
     \<longrightarrow> (let ai = getAiInsight e (trim question)
                      (join newline (List.map_filter (\<lambda>c. fst (cityLine e c)) cities))
          in getInsights e user questionField store
             = (Response 200 (InsightJson (answer (fst ai)) (usedFallback (fst ai))),
                concat (map (\<lambda>c. snd (fetchWeatherForCity e c)) cities) @ snd ai)))
   \<and> (fst (fetchWeatherForCity e c) = Inl err \<longrightarrow> fst (cityLine e c) = None)
   \<and> (createCity e now newId req store = (r, store', calls) \<and> store' \<noteq> store
        \<longrightarrow> (\<exists>d. store' = store @ [d] \<and> r = Response 201 (cityJson d)
                 \<and> (\<forall>err'. fst (fetchWeatherForCity e d) = Inl err' \<longrightarrow> \<not> isCityNotFound err')))
   \<and> (probeWeather e newId payload = (Inl err, wcalls)
        \<longrightarrow> validateWeather e newId payload calls0
            = (if isCityNotFound err
               then Inl (Response 400 (Message (''We couldn'' @ [CHR 0x27] @ ''t load weather for this city. It may not exist or be supported.'')),
                         calls0 @ wcalls)
               else Inr (payload, calls0 @ wcalls)))
   \<and> (user = Some uid \<and> questionField = Some question \<and> trim question \<noteq> []
        \<and> listCitiesForUser uid store = Inl err
        \<longrightarrow> getInsights e user questionField store
            = (Response 500 (Message ''Failed to generate AI insights''), []))
   \<and> (cr_user req = Some uid \<and> cr_name req = Some typed
        \<and> resolveExactCity e (trim typed) (normalizedCountryOf e (cr_country req)) = (Inl err, gcalls)
        \<longrightarrow> status (fst (createCity e now newId req store)) = 400
            \<and> fst (snd (createCity e now newId req store)) = store)"
proof (intro conjI)
  show "user = Some uid \<and> questionField = Some question \<and> trim question \<noteq> []
      \<and> listCitiesForUser uid store = Inr cities \<and> cities \<noteq> []
     \<longrightarrow> (let ai = getAiInsight e (trim question)
                      (join newline (List.map_filter (\<lambda>c. fst (cityLine e c)) cities))
          in getInsights e user questionField store
             = (Response 200 (InsightJson (answer (fst ai)) (usedFallback (fst ai))),
                concat (map (\<lambda>c. snd (fetchWeatherForCity e c)) cities) @ snd ai))"
  proof
    assume h: "user = Some uid \<and> questionField = Some question \<and> trim question \<noteq> []
      \<and> listCitiesForUser uid store = Inr cities \<and> cities \<noteq> []"
    then have q: "question \<noteq> []" by (auto simp: trim_def)
    with h show "let ai = getAiInsight e (trim question)
                      (join newline (List.map_filter (\<lambda>c. fst (cityLine e c)) cities))
          in getInsights e user questionField store
             = (Response 200 (InsightJson (answer (fst ai)) (usedFallback (fst ai))),
                concat (map (\<lambda>c. snd (fetchWeatherForCity e c)) cities) @ snd ai)"
      by (simp add: getInsights_def weatherLines_eq Let_def split: prod.splits)
  qed
next
  show "fst (fetchWeatherForCity e c) = Inl err \<longrightarrow> fst (cityLine e c) = None"
    by (auto simp: cityLine_def split: prod.splits sum.splits)
next
  show "createCity e now newId req store = (r, store', calls) \<and> store' \<noteq> store
        \<longrightarrow> (\<exists>d. store' = store @ [d] \<and> r = Response 201 (cityJson d)
                 \<and> (\<forall>err'. fst (fetchWeatherForCity e d) = Inl err' \<longrightarrow> \<not> isCityNotFound err'))"
    using createCity_persisted_probe by blast
next
  show "probeWeather e newId payload = (Inl err, wcalls)
        \<longrightarrow> validateWeather e newId payload calls0
            = (if isCityNotFound err
               then Inl (Response 400 (Message (''We couldn'' @ [CHR 0x27] @ ''t load weather for this city. It may not exist or be supported.'')),
                         calls0 @ wcalls)
               else Inr (payload, calls0 @ wcalls))"
    by (simp add: validateWeather_def)
next
  show "user = Some uid \<and> questionField = Some question \<and> trim question \<noteq> []
        \<and> listCitiesForUser uid store = Inl err
        \<longrightarrow> getInsights e user questionField store
            = (Response 500 (Message ''Failed to generate AI insights''), [])"
  proof
    assume h: "user = Some uid \<and> questionField = Some question \<and> trim question \<noteq> []
        \<and> listCitiesForUser uid store = Inl err"
    then have "question \<noteq> []" by (auto simp: trim_def)
    with h show "getInsights e user questionField store
            = (Response 500 (Message ''Failed to generate AI insights''), [])"
      by (simp add: getInsights_def)
  qed
next
  show "cr_user req = Some uid \<and> cr_name req = Some typed
        \<and> resolveExactCity e (trim typed) (normalizedCountryOf e (cr_country req)) = (Inl err, gcalls)
        \<longrightarrow> status (fst (createCity e now newId req store)) = 400
            \<and> fst (snd (createCity e now newId req store)) = store"
  proof
    assume h: "cr_user req = Some uid \<and> cr_name req = Some typed
        \<and> resolveExactCity e (trim typed) (normalizedCountryOf e (cr_country req)) = (Inl err, gcalls)"
    then have "\<exists>m cs. planCity e newId req = Inl (Response 400 (Message m), cs)"
      by (auto simp: planCity_def Let_def split: option.splits)
    then show "status (fst (createCity e now newId req store)) = 400
            \<and> fst (snd (createCity e now newId req store)) = store"
      by (auto simp: createCity_def)
  qed
qed

text \<open>
  The theorem at a user with Paris and Lyon, where the provider knows only Paris; at a
  provider that answers every weather call with status 500; at a user id that is no
  object id; and at an environment without the OpenWeather key.
\<close>

theorem weather_failure_handling_witness:
  "fst (fetchWeatherForCity exampleEnv lyonDoc)
     = Inl (AxiosError (Some 404) (JString (lit ''404'')) (JString (lit ''city not found'')))
   \<and> fst (cityLine exampleEnv lyonDoc) = None
   \<and> status (fst (getInsights exampleEnv (Some userA) (Some (lit ''Which city is warmest?'')) [parisDoc, lyonDoc])) = 200
   \<and> snd (getInsights exampleEnv (Some userA) (Some (lit ''Which city is warmest?'')) [parisDoc, lyonDoc])
       = [WeatherCall (lit ''Lyon,FR''), WeatherCall (lit ''Paris,FR'')]
   \<and> createCity flakyEnv 1000 id1 parisReq []
       = (Response 201 (cityJson parisDoc), [parisDoc], [GeoCall (lit ''paris,FR''), WeatherCall (lit ''Paris,FR'')])
   \<and> fst (fetchWeatherForCity flakyEnv parisDoc) = Inl (AxiosError (Some 500) JUndefined JUndefined)
   \<and> \<not> isCityNotFound (AxiosError (Some 500) JUndefined JUndefined)
   \<and> getInsights exampleEnv (Some (lit ''nobody'')) (Some (lit ''Which city is warmest?'')) [parisDoc]
       = (Response 500 (Message ''Failed to generate AI insights''), [])
   \<and> status (fst (createCity noKeyEnv 1000 id1 parisReq [])) = 400
   \<and> fst (snd (createCity noKeyEnv 1000 id1 parisReq [])) = []"
proof -
  let ?q = "lit ''Which city is warmest?''"
  let ?e404 = "AxiosError (Some 404) (JString (lit ''404'')) (JString (lit ''city not found''))"
  let ?e500 = "AxiosError (Some 500) JUndefined JUndefined"
  let ?calls = "[GeoCall (lit ''paris,FR''), WeatherCall (lit ''Paris,FR'')]"
  have w1: "fst (fetchWeatherForCity exampleEnv lyonDoc) = Inl ?e404" by code_simp
  have q1: "trim ?q \<noteq> []" by code_simp
  have l1: "listCitiesForUser userA [parisDoc, lyonDoc] = Inr [lyonDoc, parisDoc]" by code_simp
  have c1: "concat (map (\<lambda>c. snd (fetchWeatherForCity exampleEnv c)) [lyonDoc, parisDoc])
            @ snd (getAiInsight exampleEnv (trim ?q)
                     (join newline (List.map_filter (\<lambda>c. fst (cityLine exampleEnv c)) [lyonDoc, parisDoc])))
            = [WeatherCall (lit ''Lyon,FR''), WeatherCall (lit ''Paris,FR'')]"
    by code_simp
  note a = weather_failure_handling [where user = "Some userA" and uid = userA
      and questionField = "Some ?q" and question = ?q and store = "[parisDoc, lyonDoc]"
      and cities = "[lyonDoc, parisDoc]" and e = exampleEnv and c = lyonDoc and err = ?e404]
  from a w1 have skipped: "fst (cityLine exampleEnv lyonDoc) = None" by blast
  from a q1 l1 have
    "let ai = getAiInsight exampleEnv (trim ?q)
                (join newline (List.map_filter (\<lambda>c. fst (cityLine exampleEnv c)) [lyonDoc, parisDoc]))
     in getInsights exampleEnv (Some userA) (Some ?q) [parisDoc, lyonDoc]
        = (Response 200 (InsightJson (answer (fst ai)) (usedFallback (fst ai))),
           concat (map (\<lambda>c. snd (fetchWeatherForCity exampleEnv c)) [lyonDoc, parisDoc]) @ snd ai)"
    by simp
  with c1 have ins:
    "status (fst (getInsights exampleEnv (Some userA) (Some ?q) [parisDoc, lyonDoc])) = 200
     \<and> snd (getInsights exampleEnv (Some userA) (Some ?q) [parisDoc, lyonDoc])
         = [WeatherCall (lit ''Lyon,FR''), WeatherCall (lit ''Paris,FR'')]"
    by (simp add: Let_def)
  have cr: "createCity flakyEnv 1000 id1 parisReq [] = (Response 201 (cityJson parisDoc), [parisDoc], ?calls)"
    by code_simp
  have w2: "fst (fetchWeatherForCity flakyEnv parisDoc) = Inl ?e500" by code_simp
  note b = weather_failure_handling [where store = "[]" and e = flakyEnv and newId = id1 and now = 1000
      and req = parisReq and r = "Response 201 (cityJson parisDoc)" and store' = "[parisDoc]"
      and calls = ?calls]
  from b cr have "\<exists>d. [parisDoc] = [] @ [d]
      \<and> (\<forall>err'. fst (fetchWeatherForCity flakyEnv d) = Inl err' \<longrightarrow> \<not> isCityNotFound err')"
    by simp
  with w2 have nf: "\<not> isCityNotFound ?e500" by auto
  have l2: "listCitiesForUser (lit ''nobody'') [parisDoc] = Inl BSONError" by code_simp
  note c = weather_failure_handling [where user = "Some (lit ''nobody'')" and uid = "(lit ''nobody'')"
      and questionField = "Some ?q" and question = ?q and store = "[parisDoc]"
      and e = exampleEnv and err = BSONError]
  from c q1 l2 have ab1: "getInsights exampleEnv (Some (lit ''nobody'')) (Some ?q) [parisDoc]
       = (Response 500 (Message ''Failed to generate AI insights''), [])"
    by simp
  have u3: "cr_user parisReq = Some userA" by (simp add: parisReq_def)
  have n3: "cr_name parisReq = Some (lit '' paris '')" by (simp add: parisReq_def)
  have g3: "resolveExactCity noKeyEnv (trim (lit '' paris '')) (normalizedCountryOf noKeyEnv (cr_country parisReq))
            = (Inl (Error ''OPENWEATHER_API_KEY is not defined in environment variables''), [])"
    by code_simp
  note d = weather_failure_handling [where uid = userA and req = parisReq and typed = "(lit '' paris '')"
      and e = noKeyEnv and err = "Error ''OPENWEATHER_API_KEY is not defined in environment variables''"
      and gcalls = "[]" and newId = id1 and store = "[]" and now = 1000]
  from d u3 n3 g3 have ab2: "status (fst (createCity noKeyEnv 1000 id1 parisReq [])) = 400
      \<and> fst (snd (createCity noKeyEnv 1000 id1 parisReq [])) = []"
    by simp
  from w1 skipped ins cr w2 nf ab1 ab2 show ?thesis by simp
qed

text \<open>
  The claim that a failing weather call aborts the request fails in both handlers: the
  insights request is answered 200 although the call for Lyon failed, and \<open>createCity\<close>
  stores Paris although the probe failed with status 500.
\<close>

theorem first_error_aborts_counterexample:
  "fst (fetchWeatherForCity exampleEnv lyonDoc)
     = Inl (AxiosError (Some 404) (JString (lit ''404'')) (JString (lit ''city not found'')))
   \<and> listCitiesForUser userA [parisDoc, lyonDoc] = Inr [lyonDoc, parisDoc]
   \<and> status (fst (getInsights exampleEnv (Some userA) (Some (lit ''Which city is warmest?'')) [parisDoc, lyonDoc])) = 200
   \<and> snd (getInsights exampleEnv (Some userA) (Some (lit ''Which city is warmest?'')) [parisDoc, lyonDoc])
       = [WeatherCall (lit ''Lyon,FR''), WeatherCall (lit ''Paris,FR'')]
   \<and> fst (probeWeather flakyEnv id1 parisPayload) = Inl (AxiosError (Some 500) JUndefined JUndefined)
   \<and> createCity flakyEnv 1000 id1 parisReq []
       = (Response 201 (cityJson parisDoc), [parisDoc], [GeoCall (lit ''paris,FR''), WeatherCall (lit ''Paris,FR'')])"
  by code_simp
end
